(* ===== verification/Prelude.thy ===== *)
theory Prelude
  imports Main "HOL-Library.Multiset"
begin

text \<open>
  Shared vocabulary of the development: the JavaScript built-ins that the
  application calls (\<open>Number.prototype.toString\<close> on integers,
  \<open>Array.prototype.indexOf\<close>, reading \<open>arr[i]\<close>, \<open>Array.prototype.reduce\<close>
  with \<open>+\<close>), stated once here with their characteristic lemmas, and the
  collection \<open>js_simps\<close> that the component theories add to \<open>simp\<close>.
  Nothing in this theory is code of the repository; it is the semantics of
  the language the code is written in.
\<close>

named_theorems js_simps "characteristic equations of the JavaScript built-ins"
named_theorems eval_simps "definitions unfolded to evaluate the model on concrete inputs"

section \<open>Decimal rendering of integers\<close>

text \<open>
  \<open>n.toString()\<close> for an integer-valued JavaScript number below \<open>10^21\<close> is
  its shortest decimal notation with a leading minus sign when negative.
  \<open>dec_value\<close> reads a string of decimal digits back (the reading
  \<open>Number(s)\<close> gives on such a string).
\<close>

definition digit_char :: "nat \<Rightarrow> char" where
  "digit_char d = char_of (48 + d)"

definition is_dec_digit :: "char \<Rightarrow> bool" where
  "is_dec_digit c \<longleftrightarrow> (48::nat) \<le> of_char c \<and> of_char c \<le> (57::nat)"

definition digit_val :: "char \<Rightarrow> nat" where
  "digit_val c = of_char c - 48"

fun nat_to_dec :: "nat \<Rightarrow> string" where
  "nat_to_dec n =
     (if n < 10 then [digit_char n] else nat_to_dec (n div 10) @ [digit_char (n mod 10)])"

declare nat_to_dec.simps [simp del]

definition int_to_dec :: "int \<Rightarrow> string" where
  "int_to_dec i =
     (if i < 0 then CHR ''-'' # nat_to_dec (nat (- i)) else nat_to_dec (nat i))"

definition dec_value :: "string \<Rightarrow> nat" where
  "dec_value s = foldl (\<lambda>acc c. 10 * acc + digit_val c) 0 s"

definition dec_to_int :: "string \<Rightarrow> int" where
  "dec_to_int s =
     (case s of
        [] \<Rightarrow> 0
      | c # r \<Rightarrow> (if c = CHR ''-'' then - int (dec_value r) else int (dec_value s)))"

section \<open>Arrays\<close>

text \<open>
  \<open>arr.indexOf(x)\<close>: the first index holding a value strictly equal to
  \<open>x\<close>, \<open>-1\<close> (here \<open>None\<close>) when there is none. \<open>arr[i]\<close>: the element,
  or \<open>undefined\<close> (here \<open>None\<close>) beyond the end.
\<close>

fun index_of :: "'a list \<Rightarrow> 'a \<Rightarrow> nat option" where
  "index_of [] x = None"
| "index_of (y # ys) x = (if y = x then Some 0 else map_option Suc (index_of ys x))"

definition nth_opt :: "'a list \<Rightarrow> nat \<Rightarrow> 'a option" where
  "nth_opt xs i = (if i < length xs then Some (xs ! i) else None)"

text \<open>\<open>values.reduce((sum, val) => sum + val, 0)\<close> on a list of numbers.\<close>

definition reduce_sum :: "int list \<Rightarrow> int" where
  "reduce_sum xs = foldl (\<lambda>sum val. sum + val) 0 xs"

section \<open>Lemmas on the built-ins\<close>

lemma digit_val_digit_char [simp]: "d < 10 \<Longrightarrow> digit_val (digit_char d) = d"
  by (simp add: digit_val_def digit_char_def)

lemma is_dec_digit_digit_char [simp]: "d < 10 \<Longrightarrow> is_dec_digit (digit_char d)"
  by (simp add: is_dec_digit_def digit_char_def)

lemma digit_char_not_minus [simp]: "d < 10 \<Longrightarrow> digit_char d \<noteq> CHR ''-''"
proof
  assume "d < 10" and eq: "digit_char d = CHR ''-''"
  then have "of_char (digit_char d) = (of_char (CHR ''-'') :: nat)" by simp
  with \<open>d < 10\<close> show False by (simp add: digit_char_def)
qed

lemma dec_value_snoc [simp]:
  "dec_value (s @ [c]) = 10 * dec_value s + digit_val c"
  by (simp add: dec_value_def)

lemma nat_to_dec_nonempty [simp]: "nat_to_dec n \<noteq> []"
  by (subst nat_to_dec.simps) simp

lemma dec_value_nat_to_dec [simp]: "dec_value (nat_to_dec n) = n"
proof (induction n rule: nat_to_dec.induct)
  case (1 n)
  show ?case
  proof (cases "n < 10")
    case True
    then show ?thesis
      by (simp add: nat_to_dec.simps [of n] dec_value_def)
  next
    case False
    with "1.IH" have "dec_value (nat_to_dec (n div 10)) = n div 10" by simp
    with False show ?thesis
      by (simp add: nat_to_dec.simps [of n])
  qed
qed

lemma nat_to_dec_digits: "c \<in> set (nat_to_dec n) \<Longrightarrow> is_dec_digit c"
proof (induction n rule: nat_to_dec.induct)
  case (1 n)
  then show ?case
    by (cases "n < 10") (auto simp: nat_to_dec.simps [of n])
qed

lemma nat_to_dec_hd_not_minus: "hd (nat_to_dec n) \<noteq> CHR ''-''"
proof -
  have "hd (nat_to_dec n) \<in> set (nat_to_dec n)" by simp
  then have "is_dec_digit (hd (nat_to_dec n))" by (rule nat_to_dec_digits)
  then show ?thesis by (auto simp: is_dec_digit_def)
qed

lemma nat_to_dec_inj: "nat_to_dec m = nat_to_dec n \<Longrightarrow> m = n"
  by (metis dec_value_nat_to_dec)

lemma index_of_Some:
  "index_of xs x = Some i \<Longrightarrow> i < length xs \<and> xs ! i = x \<and> (\<forall>j < i. xs ! j \<noteq> x)"
proof (induction xs arbitrary: i)
  case Nil
  then show ?case by simp
next
  case (Cons y ys)
  show ?case
  proof (cases "y = x")
    case True
    with Cons.prems show ?thesis by auto
  next
    case False
    with Cons.prems obtain k where k: "index_of ys x = Some k" and i: "i = Suc k"
      by auto
    from Cons.IH [OF k] i False show ?thesis
      by (auto simp: less_Suc_eq_0_disj)
  qed
qed

lemma index_of_None [simp]: "index_of xs x = None \<longleftrightarrow> x \<notin> set xs"
  by (induction xs) auto

lemma index_of_first:
  "i < length xs \<Longrightarrow> xs ! i = x \<Longrightarrow> (\<forall>j < i. xs ! j \<noteq> x) \<Longrightarrow> index_of xs x = Some i"
proof (induction xs arbitrary: i)
  case Nil
  then show ?case by simp
next
  case (Cons y ys)
  show ?case
  proof (cases i)
    case 0
    with Cons.prems show ?thesis by simp
  next
    case (Suc k)
    with Cons.prems have "y \<noteq> x" by auto
    moreover from Cons.prems Suc have "index_of ys x = Some k"
      by (intro Cons.IH) auto
    ultimately show ?thesis using Suc by simp
  qed
qed

lemma nth_opt_Some [simp]: "nth_opt xs i = Some v \<longleftrightarrow> i < length xs \<and> xs ! i = v"
  by (auto simp: nth_opt_def)

lemma reduce_sum_eq [simp]: "reduce_sum xs = sum_list xs"
proof -
  have "foldl (\<lambda>sum val. sum + val) a xs = a + sum_list xs" for a :: int
    by (induction xs arbitrary: a) (simp_all add: algebra_simps)
  then show ?thesis by (simp add: reduce_sum_def)
qed

lemma nat_to_dec_Cons: "\<exists>c r. nat_to_dec n = c # r \<and> c \<noteq> CHR ''-''"
  using nat_to_dec_nonempty [of n] nat_to_dec_hd_not_minus [of n]
  by (cases "nat_to_dec n") auto

lemma dec_to_int_int_to_dec [simp]: "dec_to_int (int_to_dec i) = i"
proof (cases "i < 0")
  case True
  then show ?thesis by (simp add: int_to_dec_def dec_to_int_def)
next
  case False
  obtain c r where cr: "nat_to_dec (nat i) = c # r" and c: "c \<noteq> CHR ''-''"
    using nat_to_dec_Cons by blast
  have "dec_to_int (nat_to_dec (nat i)) = int (dec_value (nat_to_dec (nat i)))"
    using cr c by (simp add: dec_to_int_def)
  with False show ?thesis by (simp add: int_to_dec_def)
qed

lemma int_to_dec_inj: "int_to_dec i = int_to_dec j \<Longrightarrow> i = j"
  by (metis dec_to_int_int_to_dec)

lemma digit_char_simps [eval_simps]:
  "digit_char 0 = CHR ''0''" "digit_char 1 = CHR ''1''" "digit_char (Suc 0) = CHR ''1''" "digit_char 2 = CHR ''2''"
  "digit_char 3 = CHR ''3''" "digit_char 4 = CHR ''4''" "digit_char 5 = CHR ''5''"
  "digit_char 6 = CHR ''6''" "digit_char 7 = CHR ''7''" "digit_char 8 = CHR ''8''"
  "digit_char 9 = CHR ''9''"
  by (simp_all add: digit_char_def char_of_def bit_simps)

lemmas [js_simps] = nth_opt_def int_to_dec_def dec_to_int_def
lemmas [eval_simps] = is_dec_digit_def

end
