(* ===== verification/Json.thy ===== *)
theory Json
  imports Prelude
begin

text \<open>
  The values \<open>response.json()\<close> produces and the JavaScript operations the
  application applies to them: truthiness (\<open>!x\<close>, \<open>x && y\<close>), property
  access \<open>o[k]\<close>, \<open>Array.isArray\<close>, \<open>.length\<close> and \<open>Object.entries\<close>.
  Numbers are the integers the dataset holds. \<open>Object.entries\<close> follows the
  ECMAScript property order: keys that are array indices (canonical decimal
  strings below \<open>2^32 - 1\<close>) first in ascending numeric order, then the other
  keys in the order they were created; for every other key the order is the
  document's order. An object's keys are distinct, as \<open>JSON.parse\<close> makes
  them (a repeated key in the text replaces the earlier value in place).
\<close>

datatype json =
    JNull
  | JBool bool
  | JNum int
  | JStr string
  | JArr "json list"
  | JObj "(string \<times> json) list"

text \<open>\<open>None\<close> stands for \<open>undefined\<close>, the value of a missing property.\<close>

type_synonym js_value = "json option"

fun truthy :: "json \<Rightarrow> bool" where
  "truthy JNull = False"
| "truthy (JBool b) = b"
| "truthy (JNum n) = (n \<noteq> 0)"
| "truthy (JStr s) = (s \<noteq> [])"
| "truthy (JArr xs) = True"
| "truthy (JObj ps) = True"

definition js_truthy :: "js_value \<Rightarrow> bool" where
  "js_truthy v = (case v of None \<Rightarrow> False | Some j \<Rightarrow> truthy j)"

definition js_is_array :: "js_value \<Rightarrow> bool" where
  "js_is_array v = (case v of Some (JArr _) \<Rightarrow> True | _ \<Rightarrow> False)"

text \<open>The elements of an array value (\<open>arr.length\<close> is their number).\<close>

definition array_items :: "js_value \<Rightarrow> json list" where
  "array_items v = (case v of Some (JArr xs) \<Rightarrow> xs | _ \<Rightarrow> [])"

definition is_array_index :: "string \<Rightarrow> bool" where
  "is_array_index k \<longleftrightarrow>
     list_all is_dec_digit k \<and> nat_to_dec (dec_value k) = k \<and> dec_value k < 4294967295"

text \<open>
  \<open>o[k]\<close> for an own property. Arrays and strings answer \<open>length\<close> and their
  indices; numbers and booleans have no own properties. \<open>null[k]\<close> throws in
  JavaScript; every caller in the application guards it (by a truthiness test
  or, in the loader, by an explicit branch), so its value here is never used.
\<close>

fun get_prop :: "json \<Rightarrow> string \<Rightarrow> js_value" where
  "get_prop (JObj ps) k = map_of ps k"
| "get_prop (JArr xs) k =
     (if k = ''length'' then Some (JNum (int (length xs)))
      else if is_array_index k \<and> dec_value k < length xs then Some (xs ! dec_value k)
      else None)"
| "get_prop (JStr s) k =
     (if k = ''length'' then Some (JNum (int (length s)))
      else if is_array_index k \<and> dec_value k < length s then Some (JStr [s ! dec_value k])
      else None)"
| "get_prop _ k = None"

definition index_entries :: "'a list \<Rightarrow> (string \<times> 'a) list" where
  "index_entries xs = map (\<lambda>(i, x). (nat_to_dec i, x)) (zip [0..<length xs] xs)"

fun object_entries :: "json \<Rightarrow> (string \<times> json) list" where
  "object_entries (JObj ps) =
     sort_key (\<lambda>p. dec_value (fst p)) (filter (\<lambda>p. is_array_index (fst p)) ps)
     @ filter (\<lambda>p. \<not> is_array_index (fst p)) ps"
| "object_entries (JArr xs) = index_entries xs"
| "object_entries (JStr s) = index_entries (map (\<lambda>c. JStr [c]) s)"
| "object_entries _ = []"

definition entries_of :: "js_value \<Rightarrow> (string \<times> json) list" where
  "entries_of v = (case v of None \<Rightarrow> [] | Some j \<Rightarrow> object_entries j)"

text \<open>The integer a JSON number holds, for the numeric reading of the dataset.\<close>

fun json_int :: "json \<Rightarrow> int option" where
  "json_int (JNum n) = Some n"
| "json_int _ = None"

fun json_ints :: "json list \<Rightarrow> int list option" where
  "json_ints [] = Some []"
| "json_ints (x # xs) =
     (case (json_int x, json_ints xs) of (Some n, Some ns) \<Rightarrow> Some (n # ns) | _ \<Rightarrow> None)"

section \<open>Lemmas\<close>

lemmas [eval_simps] = is_array_index_def

lemma js_truthy_simps [simp]:
  "js_truthy None = False"
  "js_truthy (Some j) = truthy j"
  by (simp_all add: js_truthy_def)

lemma js_is_array_iff: "js_is_array v \<longleftrightarrow> (\<exists>xs. v = Some (JArr xs))"
  by (auto simp: js_is_array_def split: option.splits json.splits)

lemma array_items_JArr [simp]: "array_items (Some (JArr xs)) = xs"
  by (simp add: array_items_def)

lemma entries_of_Some [simp]: "entries_of (Some j) = object_entries j"
  by (simp add: entries_of_def)

text \<open>Without index-like keys \<open>Object.entries\<close> keeps the document's order.\<close>

lemma object_entries_plain:
  "\<forall>p \<in> set ps. \<not> is_array_index (fst p) \<Longrightarrow> object_entries (JObj ps) = ps"
proof -
  assume "\<forall>p \<in> set ps. \<not> is_array_index (fst p)"
  then have "filter (\<lambda>p. is_array_index (fst p)) ps = []"
    and "filter (\<lambda>p. \<not> is_array_index (fst p)) ps = ps"
    by (simp_all add: filter_empty_conv)
  then show ?thesis by simp
qed

lemma mset_object_entries_JObj: "mset (object_entries (JObj ps)) = mset ps"
  by (simp add: multiset_partition [symmetric])

lemma set_object_entries_JObj [simp]: "set (object_entries (JObj ps)) = set ps"
  by (metis mset_object_entries_JObj set_mset_mset)

lemma map_of_object_entries_JObj:
  assumes "distinct (map fst ps)"
  shows "map_of (object_entries (JObj ps)) = map_of ps"
proof -
  have "mset (map fst (object_entries (JObj ps))) = mset (map fst ps)"
    by (simp only: mset_map mset_object_entries_JObj)
  then have "distinct (map fst (object_entries (JObj ps)))"
    using assms by (simp only: mset_eq_imp_distinct_iff [of "map fst (object_entries (JObj ps))"])
  from this assms
  have "(map_of (object_entries (JObj ps)) = map_of ps) = (set (object_entries (JObj ps)) = set ps)"
    by (rule map_of_inject_set)
  then show ?thesis
    by (simp only: set_object_entries_JObj simp_thms)
qed

lemma json_ints_map_JNum [simp]: "json_ints (map JNum ns) = Some ns"
  by (induction ns) auto

lemma json_ints_SomeD: "json_ints xs = Some ns \<Longrightarrow> xs = map JNum ns"
proof (induction xs arbitrary: ns)
  case (Cons x xs)
  then show ?case by (cases x) (auto split: option.splits)
qed simp

lemma json_ints_Some: "json_ints xs = Some ns \<longleftrightarrow> xs = map JNum ns"
  using json_ints_SomeD by auto

lemma length_json_ints: "json_ints xs = Some ns \<Longrightarrow> length ns = length xs"
  by (simp add: json_ints_Some)

end
