(* ===== verification/Loader.thy ===== *)
theory Loader
  imports Json
begin

text \<open>
  The dataset loader of src/app.js (\<open>loadTopicData\<close>, lines 103--147) with
  the state it writes: the global \<open>AppState\<close> (lines 22--27), the chart
  region \<open>#evolution-chart\<close> that \<open>showLoadingState\<close> and
  \<open>showErrorState\<close> overwrite (lines 63--95) and the console that
  \<open>logError\<close> writes (lines 56--58). The browser's \<open>fetch\<close> and
  \<open>response.json()\<close> are not code of the repository: their outcome is an
  input of the model (\<open>fetch_outcome\<close>). Every \<open>throw\<close> of the loader is a
  constructor of \<open>load_error\<close>, caught by the one \<open>catch\<close> of the function.
\<close>

section \<open>Errors\<close>

datatype load_error =
    FetchRejected string       \<comment> \<open>\<open>await fetch(...)\<close> rejects (network failure)\<close>
  | HttpError nat string       \<comment> \<open>\<open>!response.ok\<close>: status and status text\<close>
  | JsonRejected string        \<comment> \<open>\<open>await response.json()\<close> rejects (SyntaxError)\<close>
  | NullData                   \<comment> \<open>the document is \<open>null\<close>: reading \<open>data.years\<close> throws\<close>
  | MissingFields              \<comment> \<open>line 117\<close>
  | Inconsistent string        \<comment> \<open>line 124, naming the category\<close>

definition error_message :: "load_error \<Rightarrow> string" where
  "error_message e =
     (case e of
        FetchRejected m \<Rightarrow> m
      | HttpError st txt \<Rightarrow> ''HTTP '' @ nat_to_dec st @ '': '' @ txt
      | JsonRejected m \<Rightarrow> m
      | NullData \<Rightarrow> ''Cannot read properties of null (reading 'years')''
      | MissingFields \<Rightarrow> ''Invalid data format: missing required fields''
      | Inconsistent c \<Rightarrow> ''Data inconsistency in category: '' @ c)"

section \<open>Application state and the chart region\<close>

text \<open>
  What the region \<open>#evolution-chart\<close> shows: its initial markup, the loading
  placeholder, the error placeholder with its message, or a chart drawn by
  Plotly (its content is a parameter \<open>'c\<close>, fixed by the renderer's theory).
  A page without the element has \<open>region = None\<close>: both helpers test
  \<open>if (chartElement)\<close> and then do nothing.
\<close>

datatype 'c region = RBlank | RLoading | RError string | RChart 'c

datatype log_entry =
    LogError string string     \<comment> \<open>\<open>logError(context, error)\<close>: context and message\<close>
  | LogLoaded nat nat nat      \<comment> \<open>the summary logged on success, line 132\<close>
  | LogInfo string

record 'c page =
  app_data :: "json option"
  is_loading :: bool
  app_error :: "load_error option"
  chart_instance :: bool
  region :: "'c region option"
  console :: "log_entry list"

definition initial_page :: "bool \<Rightarrow> 'c page" where
  "initial_page has_mount =
     \<lparr>app_data = None, is_loading = True, app_error = None, chart_instance = False,
      region = (if has_mount then Some RBlank else None), console = []\<rparr>"

definition log_error :: "string \<Rightarrow> string \<Rightarrow> 'c page \<Rightarrow> 'c page" where
  "log_error ctx msg p = p\<lparr>console := console p @ [LogError ctx msg]\<rparr>"

definition show_loading_state :: "'c page \<Rightarrow> 'c page" where
  "show_loading_state p =
     (case region p of None \<Rightarrow> p | Some _ \<Rightarrow> p\<lparr>region := Some RLoading\<rparr>)"

definition show_error_state :: "string \<Rightarrow> 'c page \<Rightarrow> 'c page" where
  "show_error_state msg p =
     (case region p of None \<Rightarrow> p | Some _ \<Rightarrow> p\<lparr>region := Some (RError msg)\<rparr>)"

section \<open>Fetching and validating\<close>

datatype body = BodyJson json | BodyMalformed string

datatype fetch_outcome =
    NetworkError string
  | Response nat string body   \<comment> \<open>status, status text, what \<open>response.json()\<close> gives\<close>

text \<open>\<open>response.ok\<close> of the Fetch standard.\<close>

definition response_ok :: "nat \<Rightarrow> bool" where
  "response_ok st \<longleftrightarrow> 200 \<le> st \<and> st \<le> 299"

text \<open>The \<open>for ... of Object.entries(data.categories)\<close> loop, lines 121--126.\<close>

fun check_categories :: "nat \<Rightarrow> (string \<times> json) list \<Rightarrow> load_error + unit" where
  "check_categories n [] = Inr ()"
| "check_categories n ((c, v) # rest) =
     (if \<not> js_is_array (Some v) \<or> length (array_items (Some v)) \<noteq> n
      then Inl (Inconsistent c) else check_categories n rest)"

text \<open>Lines 116--126.\<close>

definition validate_data :: "json \<Rightarrow> load_error + json" where
  "validate_data data =
     (if data = JNull then Inl NullData
      else
        (let years = get_prop data ''years''; cats = get_prop data ''categories'' in
         if \<not> js_truthy years \<or> \<not> js_truthy cats \<or> \<not> js_is_array years
         then Inl MissingFields
         else
           (case check_categories (length (array_items years)) (entries_of cats) of
              Inl e \<Rightarrow> Inl e
            | Inr _ \<Rightarrow> Inr data)))"

text \<open>Lines 107--126: the awaited fetch, the status test, the parse, the checks.\<close>

definition fetch_topic_data :: "fetch_outcome \<Rightarrow> load_error + json" where
  "fetch_topic_data r =
     (case r of
        NetworkError m \<Rightarrow> Inl (FetchRejected m)
      | Response st txt b \<Rightarrow>
          (if \<not> response_ok st then Inl (HttpError st txt)
           else (case b of
                   BodyMalformed m \<Rightarrow> Inl (JsonRejected m)
                 | BodyJson d \<Rightarrow> validate_data d)))"

definition loaded_summary :: "json \<Rightarrow> log_entry" where
  "loaded_summary d =
     (let ny = length (array_items (get_prop d ''years''));
          nc = length (entries_of (get_prop d ''categories''))
      in LogLoaded ny nc (ny * nc))"

text \<open>
  \<open>loadTopicData\<close>, lines 103--147: the result is \<open>Some data\<close> or \<open>null\<close>.
  The function runs in two steps around its \<open>await fetch\<close>:
  \<open>showLoadingState()\<close> before it, and \<open>load_settled\<close>, the rest of the
  body once the response (or the rejection) is there.
\<close>

definition load_settled :: "fetch_outcome \<Rightarrow> 'c page \<Rightarrow> 'c page \<times> json option" where
  "load_settled r p =
     (case fetch_topic_data r of
        Inr d \<Rightarrow>
          (p\<lparr>app_data := Some d, is_loading := False, app_error := None,
             console := console p @ [loaded_summary d]\<rparr>, Some d)
      | Inl e \<Rightarrow>
          (show_error_state (error_message e)
             (log_error ''loadTopicData'' (error_message e)
                (p\<lparr>is_loading := False, app_error := Some e\<rparr>)), None))"

definition load_topic_data :: "fetch_outcome \<Rightarrow> 'c page \<Rightarrow> 'c page \<times> json option" where
  "load_topic_data r p = load_settled r (show_loading_state p)"

section \<open>Specification of the loader\<close>

text \<open>
  What the loader promises (spec 4.1): a document is accepted when it has an
  array \<open>years\<close> and a truthy \<open>categories\<close> whose every entry is an array
  as long as \<open>years\<close>; otherwise the error names the first entry, in
  \<open>Object.entries\<close> order, that is not.
\<close>

definition consistent_series :: "nat \<Rightarrow> json \<Rightarrow> bool" where
  "consistent_series n v = (case v of JArr vs \<Rightarrow> length vs = n | _ \<Rightarrow> False)"

definition first_inconsistent :: "nat \<Rightarrow> (string \<times> json) list \<Rightarrow> (string \<times> json) option" where
  "first_inconsistent n es = find (\<lambda>(c, v). \<not> consistent_series n v) es"

definition well_formed_doc :: "json \<Rightarrow> bool" where
  "well_formed_doc d \<longleftrightarrow>
     (case (get_prop d ''years'', get_prop d ''categories'') of
        (Some (JArr ys), Some cs) \<Rightarrow>
          truthy cs \<and> list_all (\<lambda>(c, v). consistent_series (length ys) v) (object_entries cs)
      | _ \<Rightarrow> False)"

subsection \<open>Sample documents\<close>

text \<open>
  The two documents of the spec's scenarios (section 8): a well-formed one,
  and one whose \<open>years\<close> has three entries but one category only two.
\<close>

definition sample_doc :: json where
  "sample_doc = JObj [(''years'', JArr [JNum 2016, JNum 2017]),
     (''categories'', JObj [(''AI'', JArr [JNum 2, JNum 5]), (''Finance'', JArr [JNum 3, JNum 3])])]"

definition sample_bad_doc :: json where
  "sample_bad_doc = JObj [(''years'', JArr [JNum 2016, JNum 2017, JNum 2018]),
     (''categories'', JObj [(''AI'', JArr [JNum 1, JNum 2, JNum 3]), (''Finance'', JArr [JNum 1, JNum 2])])]"

section \<open>Lemmas\<close>

lemmas [eval_simps] = response_ok_def error_message_def consistent_series_def
  first_inconsistent_def

subsection \<open>The region helpers\<close>

lemma show_loading_state_eq:
  "show_loading_state p = p\<lparr>region := map_option (\<lambda>_. RLoading) (region p)\<rparr>"
  by (cases "region p") (simp_all add: show_loading_state_def)

lemma show_error_state_eq:
  "show_error_state msg p = p\<lparr>region := map_option (\<lambda>_. RError msg) (region p)\<rparr>"
  by (cases "region p") (simp_all add: show_error_state_def)

lemmas page_ops_simps = show_loading_state_eq show_error_state_eq log_error_def

subsection \<open>The validation loop\<close>

lemma check_categories_find:
  "check_categories n es =
     (case first_inconsistent n es of None \<Rightarrow> Inr () | Some (c, v) \<Rightarrow> Inl (Inconsistent c))"
proof (induction n es rule: check_categories.induct)
  case (2 n c v rest)
  then show ?case
    by (cases v) (simp_all add: first_inconsistent_def consistent_series_def js_is_array_def)
qed (simp add: first_inconsistent_def)

lemma first_inconsistent_None:
  "first_inconsistent n es = None \<longleftrightarrow> list_all (\<lambda>(c, v). consistent_series n v) es"
  by (induction es) (auto simp: first_inconsistent_def)

lemma first_inconsistent_SomeD:
  assumes "first_inconsistent n es = Some (c, v)"
  shows "\<exists>pre post. es = pre @ (c, v) # post \<and> list_all (\<lambda>(c, v). consistent_series n v) pre
     \<and> \<not> consistent_series n v"
proof -
  from assms obtain i where i: "i < length es" "es ! i = (c, v)" "\<not> consistent_series n v"
    and before: "\<forall>j<i. consistent_series n (snd (es ! j))"
    by (auto simp: first_inconsistent_def find_Some_iff split_def) (metis snd_conv)
  have "es = take i es @ (c, v) # drop (Suc i) es"
    using i by (metis id_take_nth_drop)
  moreover have "list_all (\<lambda>(c, v). consistent_series n v) (take i es)"
    using before i by (auto simp: list_all_length split_def)
  ultimately show ?thesis using i by blast
qed

lemma first_inconsistent_append:
  "list_all (\<lambda>(c, v). consistent_series n v) pre \<Longrightarrow> \<not> consistent_series n v \<Longrightarrow>
   first_inconsistent n (pre @ (c, v) # post) = Some (c, v)"
  by (induction pre) (auto simp: first_inconsistent_def)

lemma validate_data_cases:
  "validate_data d =
     (if d = JNull then Inl NullData
      else (case (get_prop d ''years'', get_prop d ''categories'') of
              (Some (JArr ys), Some cs) \<Rightarrow>
                 (if \<not> truthy cs then Inl MissingFields
                  else (case first_inconsistent (length ys) (object_entries cs) of
                          None \<Rightarrow> Inr d
                        | Some (c, v) \<Rightarrow> Inl (Inconsistent c)))
            | _ \<Rightarrow> Inl MissingFields))"
  by (auto simp: validate_data_def Let_def js_is_array_def check_categories_find
           split: option.splits json.splits prod.splits)

lemma validate_data_Inr_iff:
  "validate_data d = Inr d' \<longleftrightarrow> d' = d \<and> well_formed_doc d"
  by (auto simp: validate_data_cases well_formed_doc_def first_inconsistent_None [symmetric]
           split: option.splits json.splits if_splits prod.splits)

subsection \<open>Properties of the loader\<close>

text \<open>
  C1. Validation totality, success side: \<open>validate_data\<close> accepts a document
  exactly when it is well formed (an array \<open>years\<close>, a truthy
  \<open>categories\<close> whose entries are all arrays as long as \<open>years\<close>), and then
  returns that very document, never a modified or partial one.
\<close>

theorem validate_data_accepts:
  "validate_data d = Inr d' \<longleftrightarrow> d' = d \<and> well_formed_doc d"
  by (rule validate_data_Inr_iff)

text \<open>
  C2. The consistency error names the first category, in \<open>Object.entries\<close>
  order, whose value is not an array of the length of \<open>years\<close>: every
  category before it is consistent, and it is not.
\<close>

theorem validate_data_names_first_inconsistent:
  assumes "get_prop d ''years'' = Some (JArr ys)" and "get_prop d ''categories'' = Some cs"
    and "truthy cs"
  shows "validate_data d = Inl (Inconsistent c) \<longleftrightarrow>
     (\<exists>pre v post. object_entries cs = pre @ (c, v) # post \<and>
        list_all (\<lambda>(c, v). consistent_series (length ys) v) pre \<and>
        \<not> consistent_series (length ys) v)"
proof -
  have nn: "d \<noteq> JNull" using assms(1) by auto
  have "validate_data d =
     (case first_inconsistent (length ys) (object_entries cs) of
        None \<Rightarrow> Inr d | Some (c, v) \<Rightarrow> Inl (Inconsistent c))"
    using assms nn by (simp add: validate_data_cases)
  note eq = this
  let ?ok = "\<lambda>(c, v). consistent_series (length ys) v"
  show ?thesis
  proof
    assume "validate_data d = Inl (Inconsistent c)"
    with eq obtain v where "first_inconsistent (length ys) (object_entries cs) = Some (c, v)"
      by (auto split: option.splits)
    then show "\<exists>pre v post. object_entries cs = pre @ (c, v) # post \<and>
        list_all ?ok pre \<and> \<not> consistent_series (length ys) v"
      by (blast dest: first_inconsistent_SomeD)
  next
    assume "\<exists>pre v post. object_entries cs = pre @ (c, v) # post \<and>
        list_all ?ok pre \<and> \<not> consistent_series (length ys) v"
    then obtain pre v post where "object_entries cs = pre @ (c, v) # post"
      and "list_all ?ok pre" and "\<not> consistent_series (length ys) v"
      by blast
    then have "first_inconsistent (length ys) (object_entries cs) = Some (c, v)"
      by (simp add: first_inconsistent_append)
    with eq show "validate_data d = Inl (Inconsistent c)" by simp
  qed
qed

lemma validate_data_names_first_inconsistent_witness:
  "validate_data sample_bad_doc = Inl (Inconsistent ''Finance'')"
proof -
  let ?ys = "[JNum 2016, JNum 2017, JNum 2018]"
  let ?cs = "JObj [(''AI'', JArr [JNum 1, JNum 2, JNum 3]), (''Finance'', JArr [JNum 1, JNum 2])]"
  have "validate_data sample_bad_doc = Inl (Inconsistent ''Finance'') \<longleftrightarrow>
     (\<exists>pre v post. object_entries ?cs = pre @ (''Finance'', v) # post \<and>
        list_all (\<lambda>(c, v). consistent_series (length ?ys) v) pre \<and>
        \<not> consistent_series (length ?ys) v)"
    by (rule validate_data_names_first_inconsistent) (simp_all add: sample_bad_doc_def)
  moreover have "object_entries ?cs =
      [(''AI'', JArr [JNum 1, JNum 2, JNum 3])] @ (''Finance'', JArr [JNum 1, JNum 2]) # []"
    by (simp add: eval_simps)
  ultimately show ?thesis by (fastforce simp: eval_simps)
qed

text \<open>
  C3. A document other than \<open>null\<close> is refused with the missing-fields error
  exactly when \<open>years\<close> is not an array or \<open>categories\<close> is not truthy.
\<close>

theorem validate_data_missing:
  "d \<noteq> JNull \<Longrightarrow>
   validate_data d = Inl MissingFields \<longleftrightarrow>
     (\<nexists>ys. get_prop d ''years'' = Some (JArr ys)) \<or> \<not> js_truthy (get_prop d ''categories'')"
  by (auto simp: validate_data_cases split: option.splits json.splits if_splits prod.splits)

lemma validate_data_missing_witness:
  "JObj [(''categories'', JObj [])] \<noteq> JNull \<and>
   validate_data (JObj [(''categories'', JObj [])]) = Inl MissingFields"
  using validate_data_missing [of "JObj [(''categories'', JObj [])]"] by simp

text \<open>
  C4. A failed load returns \<open>null\<close> and leaves \<open>AppState.data\<close> as it was
  (no partially populated dataset); it records the error, clears the loading
  flag, replaces the region with the error's message and logs it.
\<close>

theorem load_topic_data_failure:
  assumes "fetch_topic_data r = Inl e" and "load_topic_data r p = (p', res)"
  shows "res = None \<and> app_data p' = app_data p \<and> app_error p' = Some e \<and> \<not> is_loading p' \<and>
         region p' = map_option (\<lambda>_. RError (error_message e)) (region p) \<and>
         console p' = console p @ [LogError ''loadTopicData'' (error_message e)]"
  using assms by (auto simp: load_topic_data_def load_settled_def page_ops_simps option.map_comp comp_def)

lemma load_topic_data_failure_witness:
  "snd (load_topic_data (NetworkError ''Failed to fetch'') (initial_page True :: unit page)) = None \<and>
   region (fst (load_topic_data (NetworkError ''Failed to fetch'') (initial_page True :: unit page)))
     = Some (RError ''Failed to fetch'')"
proof -
  obtain p' res where eq: "load_topic_data (NetworkError ''Failed to fetch'') (initial_page True :: unit page) = (p', res)"
    by fastforce
  have "fetch_topic_data (NetworkError ''Failed to fetch'') = Inl (FetchRejected ''Failed to fetch'')"
    by (simp add: fetch_topic_data_def)
  from load_topic_data_failure [OF this eq] eq show ?thesis
    by (simp add: initial_page_def error_message_def)
qed

text \<open>
  C5. A successful load returns the document, stores it in \<open>AppState.data\<close>,
  clears the error and the loading flag and leaves the loading placeholder in
  the region for the renderer to replace.
\<close>

theorem load_topic_data_success:
  assumes "fetch_topic_data r = Inr d" and "load_topic_data r p = (p', res)"
  shows "res = Some d \<and> app_data p' = Some d \<and> app_error p' = None \<and> \<not> is_loading p' \<and>
         region p' = map_option (\<lambda>_. RLoading) (region p) \<and> chart_instance p' = chart_instance p"
  using assms by (auto simp: load_topic_data_def load_settled_def page_ops_simps)

lemma load_topic_data_success_witness:
  "snd (load_topic_data (Response 200 ''OK'' (BodyJson sample_doc)) (initial_page True :: unit page))
     = Some sample_doc \<and>
   region (fst (load_topic_data (Response 200 ''OK'' (BodyJson sample_doc)) (initial_page True :: unit page)))
     = Some RLoading"
proof -
  obtain p' res where eq: "load_topic_data (Response 200 ''OK'' (BodyJson sample_doc)) (initial_page True :: unit page) = (p', res)"
    by fastforce
  have "fetch_topic_data (Response 200 ''OK'' (BodyJson sample_doc)) = Inr sample_doc"
    by (simp add: fetch_topic_data_def validate_data_cases sample_doc_def eval_simps)
  from load_topic_data_success [OF this eq] eq show ?thesis
    by (simp add: initial_page_def)
qed

text \<open>
  C6. The fetch succeeds exactly on a response with a status in 200--299 whose
  body parses to a well-formed document; every other outcome is an error.
\<close>

theorem fetch_topic_data_success_iff:
  "fetch_topic_data r = Inr d \<longleftrightarrow>
     (\<exists>st txt. r = Response st txt (BodyJson d) \<and> response_ok st \<and> well_formed_doc d)"
  by (auto simp: fetch_topic_data_def validate_data_Inr_iff
           split: fetch_outcome.splits body.splits)

end
