(* ===== verification/Dataset.thy ===== *)
theory Dataset
  imports Loader
begin

text \<open>
  The dataset the chart builders read (spec section 3): the \<open>years\<close> axis,
  the categories in \<open>Object.entries\<close> order with their counts, and the
  optional \<open>markers\<close> object. The builders of src/app.js read the document
  \<open>AppState.data\<close> directly; \<open>to_dataset\<close> is the typed reading of that
  document when its years and counts are numbers, which is what the builders
  are modelled on (a document with non-numeric counts passes validation, see
  the findings, but its chart is outside the model).
\<close>

record dataset =
  ds_years :: "int list"
  ds_categories :: "(string \<times> int list) list"
  ds_markers :: "json option"

definition to_dataset :: "json \<Rightarrow> dataset option" where
  "to_dataset d =
     (case json_ints (array_items (get_prop d ''years'')) of
        None \<Rightarrow> None
      | Some ys \<Rightarrow>
          (case those (map (\<lambda>(c, v). map_option (Pair c) (json_ints (array_items (Some v))))
                          (entries_of (get_prop d ''categories''))) of
             None \<Rightarrow> None
           | Some cs \<Rightarrow> Some \<lparr>ds_years = ys, ds_categories = cs, ds_markers = get_prop d ''markers''\<rparr>))"

text \<open>Every series has one count per year (the invariant of spec section 3).\<close>

definition dataset_consistent :: "dataset \<Rightarrow> bool" where
  "dataset_consistent ds \<longleftrightarrow>
     list_all (\<lambda>(c, vs). length vs = length (ds_years ds)) (ds_categories ds)"

section \<open>Lemmas\<close>

lemma those_map_SomeD:
  "those (map f xs) = Some ys \<Longrightarrow> list_all2 (\<lambda>x y. f x = Some y) xs ys"
proof (induction xs arbitrary: ys)
  case (Cons x xs)
  then show ?case by (auto split: option.splits)
qed simp

lemma to_dataset_SomeD:
  assumes "to_dataset d = Some ds"
  shows "json_ints (array_items (get_prop d ''years'')) = Some (ds_years ds) \<and>
         list_all2 (\<lambda>(c, v) (c', vs). c' = c \<and> json_ints (array_items (Some v)) = Some vs)
           (entries_of (get_prop d ''categories'')) (ds_categories ds) \<and>
         ds_markers ds = get_prop d ''markers''"
proof -
  from assms obtain ys cs
    where ys: "json_ints (array_items (get_prop d ''years'')) = Some ys"
      and cs: "those (map (\<lambda>(c, v). map_option (Pair c) (json_ints (array_items (Some v))))
                  (entries_of (get_prop d ''categories''))) = Some cs"
      and ds: "ds = \<lparr>ds_years = ys, ds_categories = cs, ds_markers = get_prop d ''markers''\<rparr>"
    by (auto simp: to_dataset_def split: option.splits)
  from those_map_SomeD [OF cs]
  have "list_all2 (\<lambda>(c, v) (c', vs). c' = c \<and> json_ints (array_items (Some v)) = Some vs)
          (entries_of (get_prop d ''categories'')) cs"
    by (auto elim!: list_all2_mono split: prod.splits)
  with ys ds show ?thesis by simp
qed

lemma length_json_ints_array:
  "json_ints (array_items (Some v)) = Some vs \<Longrightarrow> consistent_series n v \<Longrightarrow> length vs = n"
  by (cases v) (auto simp: consistent_series_def json_ints_Some)

lemma validated_dataset_consistent:
  assumes "validate_data d = Inr d" and "to_dataset d = Some ds"
  shows "dataset_consistent ds"
proof -
  from assms(1) have "well_formed_doc d" by (simp add: validate_data_Inr_iff)
  then obtain ys cs where y: "get_prop d ''years'' = Some (JArr ys)"
    and c: "get_prop d ''categories'' = Some cs"
    and ok: "list_all (\<lambda>(c, v). consistent_series (length ys) v) (object_entries cs)"
    by (auto simp: well_formed_doc_def split: option.splits json.splits)
  from to_dataset_SomeD [OF assms(2)] y c
  have ly: "length (ds_years ds) = length ys"
    and rel: "list_all2 (\<lambda>(c, v) (c', vs). c' = c \<and> json_ints (array_items (Some v)) = Some vs)
                (object_entries cs) (ds_categories ds)"
    by (auto dest: length_json_ints)
  have "\<forall>i < length (ds_categories ds). length (snd (ds_categories ds ! i)) = length ys"
  proof (intro allI impI)
    fix i assume i: "i < length (ds_categories ds)"
    with rel have i': "i < length (object_entries cs)" by (simp add: list_all2_lengthD)
    obtain c v where e: "object_entries cs ! i = (c, v)" by fastforce
    obtain c' vs where e': "ds_categories ds ! i = (c', vs)" by fastforce
    from rel i' e e' have "json_ints (array_items (Some v)) = Some vs"
      by (auto simp: list_all2_conv_all_nth)
    moreover from ok i' e have "consistent_series (length ys) v"
      by (auto simp: list_all_length)
    ultimately show "length (snd (ds_categories ds ! i)) = length ys"
      using e' by (simp add: length_json_ints_array)
  qed
  with ly show ?thesis
    by (auto simp: dataset_consistent_def list_all_length split_def)
qed

end
