(* ===== verification/Traces.thy ===== *)
theory Traces
  imports Dataset
begin

text \<open>
  The series builder \<open>createChartTraces\<close> (src/app.js lines 156--203): one
  Plotly trace per category, in descending order of the category's total,
  coloured from the fixed palette \<open>CHART_CONFIG.colors\<close> (lines 33--38) by
  position, with the marker symbol from \<open>data.markers\<close>.
  \<open>Array.prototype.sort\<close> is required to be stable since ES2019; it is
  modelled by a merge sort with the code's comparator (V8's TimSort is a
  merge sort) and shown equal to the library's stable \<open>sort_key\<close>.
\<close>

section \<open>Definitions\<close>

definition chart_colors :: "string list" where
  "chart_colors =
     [''#FF6B6B'', ''#4ECDC4'', ''#45B7D1'', ''#96CEB4'', ''#FFEAA7'',
      ''#DDA0DD'', ''#98D8C8'', ''#F7DC6F'', ''#FF9FF3'', ''#54A0FF'',
      ''#5F27CD'', ''#00D2D3'', ''#FF9F43'', ''#10AC84'', ''#EE5A24'',
      ''#0AD3C4'', ''#FFC312'', ''#C4E538'', ''#F79F1F'', ''#A3CB38'']"

record line_style =
  line_width :: nat
  line_color :: string
  line_shape :: string

record marker_style =
  marker_size :: nat
  marker_color :: string
  marker_symbol :: json
  marker_line_width :: nat
  marker_line_color :: string

record trace =
  tr_x :: "int list"
  tr_y :: "int list"
  tr_mode :: string
  tr_name :: string
  tr_type :: string
  tr_line :: line_style
  tr_marker :: marker_style
  tr_hovertemplate :: string
  tr_connectgaps :: bool

text \<open>The objects \<open>{name, values, total}\<close> built on lines 161--165.\<close>

record cat_entry =
  ce_name :: string
  ce_values :: "int list"
  ce_total :: int

definition category_entries :: "dataset \<Rightarrow> cat_entry list" where
  "category_entries d =
     map (\<lambda>(name, values). \<lparr>ce_name = name, ce_values = values, ce_total = reduce_sum values\<rparr>)
       (ds_categories d)"

text \<open>The comparator \<open>(a, b) => b.total - a.total\<close> of line 165.\<close>

definition compare_totals :: "cat_entry \<Rightarrow> cat_entry \<Rightarrow> int" where
  "compare_totals a b = ce_total b - ce_total a"

text \<open>
  \<open>Array.prototype.sort(cmp)\<close>: a stable merge sort that keeps the left
  element unless the comparator is positive.
\<close>

fun merge_by :: "('a \<Rightarrow> 'a \<Rightarrow> int) \<Rightarrow> 'a list \<Rightarrow> 'a list \<Rightarrow> 'a list" where
  "merge_by cmp [] ys = ys"
| "merge_by cmp xs [] = xs"
| "merge_by cmp (x # xs) (y # ys) =
     (if cmp x y \<le> 0 then x # merge_by cmp xs (y # ys) else y # merge_by cmp (x # xs) ys)"

fun js_sort :: "('a \<Rightarrow> 'a \<Rightarrow> int) \<Rightarrow> 'a list \<Rightarrow> 'a list" where
  "js_sort cmp xs =
     (let n = length xs in
      if n \<le> 1 then xs
      else merge_by cmp (js_sort cmp (take (n div 2) xs)) (js_sort cmp (drop (n div 2) xs)))"

declare js_sort.simps [simp del]

text \<open>Line 169: \<open>data.markers && data.markers[name] ? data.markers[name] : 'circle'\<close>.\<close>

definition marker_symbol_for :: "json option \<Rightarrow> string \<Rightarrow> json" where
  "marker_symbol_for markers name =
     (case markers of
        Some m \<Rightarrow>
          (if truthy m then
             (case get_prop m name of
                Some s \<Rightarrow> (if truthy s then s else JStr ''circle'')
              | None \<Rightarrow> JStr ''circle'')
           else JStr ''circle'')
      | None \<Rightarrow> JStr ''circle'')"

text \<open>The object pushed on lines 171--197.\<close>

definition make_trace :: "dataset \<Rightarrow> string \<Rightarrow> cat_entry \<Rightarrow> trace" where
  "make_trace d color e =
     \<lparr>tr_x = ds_years d, tr_y = ce_values e, tr_mode = ''lines+markers'',
      tr_name = ce_name e, tr_type = ''scatter'',
      tr_line = \<lparr>line_width = 3, line_color = color, line_shape = ''linear''\<rparr>,
      tr_marker = \<lparr>marker_size = 10, marker_color = color,
                   marker_symbol = marker_symbol_for (ds_markers d) (ce_name e),
                   marker_line_width = 2, marker_line_color = ''#ffffff''\<rparr>,
      tr_hovertemplate =
        ''<b>%{fullData.name}</b><br>Year: %{x}<br>Topics: %{y}<br><extra></extra>'',
      tr_connectgaps = False\<rparr>"

text \<open>The \<open>forEach\<close> of lines 167--200 with its counter \<open>colorIndex\<close>.\<close>

fun build_traces :: "dataset \<Rightarrow> nat \<Rightarrow> cat_entry list \<Rightarrow> trace list" where
  "build_traces d color_index [] = []"
| "build_traces d color_index (e # es) =
     make_trace d (chart_colors ! (color_index mod length chart_colors)) e
     # build_traces d (Suc color_index) es"

definition create_chart_traces :: "dataset \<Rightarrow> trace list" where
  "create_chart_traces d = build_traces d 0 (js_sort compare_totals (category_entries d))"

text \<open>The colour and the total a trace carries.\<close>

definition trace_color :: "trace \<Rightarrow> string" where
  "trace_color t = line_color (tr_line t)"

text \<open>
  The contract of \<open>buildSeries\<close> in spec 4.2, for names, counts and colours:
  the categories sorted by descending total with ties in insertion order,
  coloured by sorted position modulo the palette's length.
\<close>

definition build_series_spec :: "dataset \<Rightarrow> (string \<times> int list \<times> string) list" where
  "build_series_spec d =
     (let ss = sort_key (\<lambda>(n, vs). - sum_list vs) (ds_categories d)
      in map2 (\<lambda>i (n, vs). (n, vs, chart_colors ! (i mod length chart_colors))) [0..<length ss] ss)"

subsection \<open>Sample datasets\<close>

text \<open>
  The dataset of the spec's end-to-end scenario (AI: 2, 5; Finance: 3, 3 over
  2016--2017), and one with 21 categories, one more than the palette has.
\<close>

definition sample_dataset :: dataset where
  "sample_dataset = \<lparr>ds_years = [2016, 2017],
     ds_categories = [(''AI'', [2, 5]), (''Finance'', [3, 3])], ds_markers = None\<rparr>"

definition wide_dataset :: dataset where
  "wide_dataset = \<lparr>ds_years = [2024],
     ds_categories = map (\<lambda>i. (''topic '' @ nat_to_dec i, [int i])) [0..<21], ds_markers = None\<rparr>"

section \<open>Lemmas\<close>

subsection \<open>The merge sort\<close>

lemma mset_merge_by [simp]: "mset (merge_by cmp xs ys) = mset xs + mset ys"
  by (induction cmp xs ys rule: merge_by.induct) auto

lemma set_merge_by [simp]: "set (merge_by cmp xs ys) = set xs \<union> set ys"
  by (metis mset_merge_by set_mset_mset set_mset_union)

lemma mset_js_sort [simp]: "mset (js_sort cmp xs) = mset xs"
proof (induction cmp xs rule: js_sort.induct)
  case (1 cmp xs)
  let ?n = "length xs"
  show ?case
  proof (cases "?n \<le> 1")
    case True
    then show ?thesis by (simp add: js_sort.simps [of cmp xs])
  next
    case False
    then have "mset (js_sort cmp xs) =
        mset (take (?n div 2) xs) + mset (drop (?n div 2) xs)"
      using "1.IH" by (simp add: js_sort.simps [of cmp xs] Let_def)
    also have "\<dots> = mset xs"
      by (simp flip: mset_append)
    finally show ?thesis .
  qed
qed

text \<open>A comparator that orders by a key, as \<open>b.total - a.total\<close> does.\<close>

definition orders_by :: "('a \<Rightarrow> 'a \<Rightarrow> int) \<Rightarrow> ('a \<Rightarrow> int) \<Rightarrow> bool" where
  "orders_by cmp f \<longleftrightarrow> (\<forall>x y. cmp x y \<le> 0 \<longleftrightarrow> f x \<le> f y)"

lemma length_js_sort [simp]: "length (js_sort cmp xs) = length xs"
  by (metis mset_js_sort size_mset)

lemma set_js_sort [simp]: "set (js_sort cmp xs) = set xs"
  by (metis mset_js_sort set_mset_mset)

lemma sorted_merge_by:
  "orders_by cmp f \<Longrightarrow> sorted (map f xs) \<Longrightarrow> sorted (map f ys) \<Longrightarrow>
   sorted (map f (merge_by cmp xs ys))"
  by (induction cmp xs ys rule: merge_by.induct) (auto simp: orders_by_def)

lemma sorted_js_sort: "orders_by cmp f \<Longrightarrow> sorted (map f (js_sort cmp xs))"
proof (induction cmp xs rule: js_sort.induct)
  case (1 cmp xs)
  show ?case
  proof (cases "length xs \<le> 1")
    case True
    then show ?thesis by (simp add: js_sort.simps [of cmp xs] sorted01)
  next
    case False
    with "1.IH" "1.prems" show ?thesis
      by (simp add: js_sort.simps [of cmp xs] Let_def sorted_merge_by)
  qed
qed

lemma filter_merge_by:
  assumes "orders_by cmp f" "sorted (map f xs)" "sorted (map f ys)"
  shows "filter (\<lambda>z. f z = k) (merge_by cmp xs ys) =
         filter (\<lambda>z. f z = k) xs @ filter (\<lambda>z. f z = k) ys"
  using assms
proof (induction cmp xs ys rule: merge_by.induct)
  case (3 cmp x xs y ys)
  show ?case
  proof (cases "cmp x y \<le> 0")
    case True
    with "3.IH"(1) "3.prems" show ?thesis by simp
  next
    case False
    with "3.prems"(1) have lt: "f y < f x" by (auto simp: orders_by_def)
    have IH: "filter (\<lambda>z. f z = k) (merge_by cmp (x # xs) ys) =
        filter (\<lambda>z. f z = k) (x # xs) @ filter (\<lambda>z. f z = k) ys"
      using False "3.IH"(2) "3.prems" by simp
    show ?thesis
    proof (cases "f y = k")
      case True
      have "filter (\<lambda>z. f z = k) (x # xs) = []"
        using lt True "3.prems"(2) by (auto simp: filter_empty_conv)
      with IH False True show ?thesis by simp
    next
      case False
      with IH \<open>\<not> cmp x y \<le> 0\<close> show ?thesis by simp
    qed
  qed
qed simp_all

lemma filter_js_sort:
  "orders_by cmp f \<Longrightarrow> filter (\<lambda>z. f z = k) (js_sort cmp xs) = filter (\<lambda>z. f z = k) xs"
proof (induction cmp xs rule: js_sort.induct)
  case (1 cmp xs)
  let ?n = "length xs"
  show ?case
  proof (cases "?n \<le> 1")
    case True
    then show ?thesis by (simp add: js_sort.simps [of cmp xs])
  next
    case False
    then have "filter (\<lambda>z. f z = k) (js_sort cmp xs) =
        filter (\<lambda>z. f z = k) (js_sort cmp (take (?n div 2) xs)) @
        filter (\<lambda>z. f z = k) (js_sort cmp (drop (?n div 2) xs))"
      using "1.prems" by (simp add: js_sort.simps [of cmp xs] Let_def filter_merge_by sorted_js_sort)
    also have "\<dots> = filter (\<lambda>z. f z = k) xs"
      using False "1.IH" "1.prems" by (simp flip: filter_append)
    finally show ?thesis .
  qed
qed

lemma js_sort_eq_sort_key:
  assumes o: "orders_by cmp f"
  shows "js_sort cmp xs = sort_key f xs"
proof (rule properties_for_sort_key [symmetric])
  show "mset (js_sort cmp xs) = mset xs" by simp
  show "sorted (map f (js_sort cmp xs))" using o by (rule sorted_js_sort)
  fix k
  have eq: "(\<lambda>x. f k = f x) = (\<lambda>z. f z = f k)" by auto
  show "filter (\<lambda>x. f k = f x) (js_sort cmp xs) = filter (\<lambda>x. f k = f x) xs"
    unfolding eq using o by (rule filter_js_sort)
qed

lemma orders_by_compare_totals: "orders_by compare_totals (\<lambda>e. - ce_total e)"
  by (auto simp: orders_by_def compare_totals_def)

subsection \<open>The trace builder\<close>

lemmas [eval_simps] = chart_colors_def category_entries_def compare_totals_def
  marker_symbol_for_def make_trace_def trace_color_def

lemma length_chart_colors [simp]: "length chart_colors = 20"
  by (simp add: chart_colors_def)

lemma distinct_chart_colors: "distinct chart_colors"
  by (simp add: chart_colors_def)

lemma length_build_traces [simp]: "length (build_traces d i es) = length es"
  by (induction es arbitrary: i) auto

lemma nth_build_traces:
  "j < length es \<Longrightarrow>
   build_traces d i es ! j = make_trace d (chart_colors ! ((i + j) mod 20)) (es ! j)"
proof (induction es arbitrary: i j)
  case (Cons e es)
  then show ?case by (cases j) auto
qed simp

lemma map_build_traces:
  "map (\<lambda>t. g (tr_name t) (tr_y t)) (build_traces d i es) = map (\<lambda>e. g (ce_name e) (ce_values e)) es"
  by (induction es arbitrary: i) (auto simp: make_trace_def)

lemma set_build_traces:
  "t \<in> set (build_traces d i es) \<Longrightarrow> \<exists>e c. e \<in> set es \<and> t = make_trace d c e"
  by (induction es arbitrary: i) fastforce+

lemma map_names_values_entries:
  "map (\<lambda>e. (ce_name e, ce_values e))
     (map (\<lambda>(name, values). \<lparr>ce_name = name, ce_values = values, ce_total = t values\<rparr>) xs) = xs"
  by (induction xs) auto

lemma map_category_entries:
  "map (\<lambda>e. (ce_name e, ce_values e)) (category_entries d) = ds_categories d"
  by (simp only: category_entries_def map_names_values_entries)

lemma length_create_chart_traces [simp]:
  "length (create_chart_traces d) = length (ds_categories d)"
  by (simp add: create_chart_traces_def category_entries_def)

lemma create_chart_traces_sort_key:
  "create_chart_traces d =
     build_traces d 0 (sort_key (\<lambda>e. - ce_total e) (category_entries d))"
  by (simp add: create_chart_traces_def js_sort_eq_sort_key [OF orders_by_compare_totals])

lemma names_values_create_chart_traces:
  "map (\<lambda>t. (tr_name t, tr_y t)) (create_chart_traces d) =
   map (\<lambda>e. (ce_name e, ce_values e)) (js_sort compare_totals (category_entries d))"
  by (simp add: create_chart_traces_def map_build_traces)

lemma filter_map_names_values:
  "filter (\<lambda>(n, vs). sum_list vs = k) (map (\<lambda>e. (ce_name e, ce_values e)) xs) =
   map (\<lambda>e. (ce_name e, ce_values e)) (filter (\<lambda>e. sum_list (ce_values e) = k) xs)"
  by (simp add: filter_map comp_def)

lemma ce_total_category_entries:
  "e \<in> set (category_entries d) \<Longrightarrow> ce_total e = sum_list (ce_values e)"
  by (auto simp: category_entries_def)

lemma filter_total_category_entries:
  "set xs \<subseteq> set (category_entries d) \<Longrightarrow>
   filter (\<lambda>e. sum_list (ce_values e) = k) xs = filter (\<lambda>e. - ce_total e = - k) xs"
  by (intro filter_cong) (auto simp: ce_total_category_entries)

lemma insort_key_map: "insort_key f (g x) (map g ys) = map g (insort_key (\<lambda>a. f (g a)) x ys)"
  by (induction ys) auto

lemma sort_key_map: "sort_key f (map g xs) = map g (sort_key (\<lambda>a. f (g a)) xs)"
  by (induction xs) (simp_all add: insort_key_map)

lemma build_traces_triples:
  "map (\<lambda>t. (tr_name t, tr_y t, trace_color t)) (build_traces d k es) =
   map2 (\<lambda>i e. (ce_name e, ce_values e, chart_colors ! (i mod length chart_colors))) [k..<k + length es] es"
proof (induction es arbitrary: k)
  case (Cons e es)
  have "[k..<k + length (e # es)] = k # [Suc k..<Suc k + length es]"
    by (simp add: upt_rec)
  with Cons.IH [of "Suc k"] show ?case by (simp add: make_trace_def trace_color_def)
qed simp

subsection \<open>Properties of the series builder\<close>

text \<open>
  C7. The sort of line 165, \<open>Array.prototype.sort\<close> with the comparator
  \<open>b.total - a.total\<close>, is the stable sort by descending total: it equals
  the library's \<open>sort_key\<close> on the negated total.
\<close>

theorem js_sort_compare_totals:
  "js_sort compare_totals es = sort_key (\<lambda>e. - ce_total e) es"
  using orders_by_compare_totals by (rule js_sort_eq_sort_key)

text \<open>
  The traces come in order of non-increasing total count (the legend
  order of spec 4.2).
\<close>

theorem create_chart_traces_sorted:
  "sorted_wrt (\<ge>) (map (\<lambda>t. sum_list (tr_y t)) (create_chart_traces d))"
proof -
  let ?es = "js_sort compare_totals (category_entries d)"
  have "map (\<lambda>t. sum_list (tr_y t)) (create_chart_traces d) = map (\<lambda>e. sum_list (ce_values e)) ?es"
    by (simp add: create_chart_traces_def map_build_traces [where g = "\<lambda>n vs. sum_list vs"])
  also have "\<dots> = map ce_total ?es"
    by (intro map_cong refl) (simp add: ce_total_category_entries)
  finally have eq: "map (\<lambda>t. sum_list (tr_y t)) (create_chart_traces d) = map ce_total ?es" .
  have "sorted (map (\<lambda>e. - ce_total e) ?es)"
    using orders_by_compare_totals by (rule sorted_js_sort)
  then show ?thesis
    unfolding eq by (simp add: sorted_map sorted_wrt_map)
qed

text \<open>
  C8. The sort is stable: the categories of any one total appear among the
  traces in their \<open>Object.entries\<close> order (spec 3: ties are broken by
  insertion order).
\<close>

theorem create_chart_traces_stable:
  "filter (\<lambda>(n, vs). sum_list vs = k) (map (\<lambda>t. (tr_name t, tr_y t)) (create_chart_traces d)) =
   filter (\<lambda>(n, vs). sum_list vs = k) (ds_categories d)"
proof -
  let ?F = "\<lambda>e. (ce_name e, ce_values e)"
  let ?es = "category_entries d"
  let ?sorted = "js_sort compare_totals ?es"
  have sub: "set ?sorted \<subseteq> set ?es" by simp
  have "filter (\<lambda>(n, vs). sum_list vs = k) (map (\<lambda>t. (tr_name t, tr_y t)) (create_chart_traces d))
      = map ?F (filter (\<lambda>e. sum_list (ce_values e) = k) ?sorted)"
    by (simp only: names_values_create_chart_traces filter_map_names_values)
  also have "\<dots> = map ?F (filter (\<lambda>e. - ce_total e = - k) ?sorted)"
    by (simp only: filter_total_category_entries [OF sub])
  also have "\<dots> = map ?F (filter (\<lambda>e. - ce_total e = - k) ?es)"
    by (simp only: filter_js_sort [OF orders_by_compare_totals])
  also have "\<dots> = map ?F (filter (\<lambda>e. sum_list (ce_values e) = k) ?es)"
    by (simp only: filter_total_category_entries [OF order_refl])
  also have "\<dots> = filter (\<lambda>(n, vs). sum_list vs = k) (ds_categories d)"
    by (simp only: filter_map_names_values [symmetric] map_category_entries)
  finally show ?thesis .
qed

text \<open>
  C9. The series builder refines the spec's \<open>buildSeries\<close>: the traces
  carry exactly the names, counts and colours of \<open>build_series_spec\<close>, so
  they are the categories (none lost or repeated) in the spec's order and
  colours.
\<close>

theorem create_chart_traces_refines:
  "map (\<lambda>t. (tr_name t, tr_y t, trace_color t)) (create_chart_traces d) = build_series_spec d"
proof -
  let ?G = "\<lambda>(name, values). \<lparr>ce_name = name, ce_values = values, ce_total = reduce_sum values\<rparr>"
  let ?ss = "sort_key (\<lambda>(n, vs). - sum_list vs) (ds_categories d)"
  have "sort_key (\<lambda>e. - ce_total e) (category_entries d) = map ?G ?ss"
    by (simp add: category_entries_def sort_key_map split_def)
  then have "map (\<lambda>t. (tr_name t, tr_y t, trace_color t)) (create_chart_traces d) =
      map2 (\<lambda>i e. (ce_name e, ce_values e, chart_colors ! (i mod length chart_colors)))
        [0..<length ?ss] (map ?G ?ss)"
    by (simp add: create_chart_traces_sort_key build_traces_triples)
  also have "\<dots> = build_series_spec d"
    by (simp add: build_series_spec_def zip_map2 map_zip_map2 split_def case_prod_beta)
  finally show ?thesis .
qed

text \<open>
  C10. Colours cycle through the twenty-colour palette by sorted position:
  the trace at position \<open>i\<close> has colour \<open>chart_colors ! (i mod 20)\<close>, and two
  traces share a colour exactly when their positions agree modulo 20, so only
  with more than twenty categories (spec 3 and 8).
\<close>

theorem create_chart_traces_colors:
  assumes "i < length (create_chart_traces d)" and "j < length (create_chart_traces d)"
  shows "trace_color (create_chart_traces d ! i) = chart_colors ! (i mod 20) \<and>
         (trace_color (create_chart_traces d ! i) = trace_color (create_chart_traces d ! j)
            \<longleftrightarrow> i mod 20 = j mod 20)"
proof -
  have c: "trace_color (create_chart_traces d ! n) = chart_colors ! (n mod 20)"
    if "n < length (create_chart_traces d)" for n
    using that by (simp add: create_chart_traces_def nth_build_traces trace_color_def make_trace_def)
  have "chart_colors ! (i mod 20) = chart_colors ! (j mod 20) \<longleftrightarrow> i mod 20 = j mod 20"
    using distinct_chart_colors by (simp add: nth_eq_iff_index_eq)
  with c [OF assms(1)] c [OF assms(2)] show ?thesis by simp
qed

lemma create_chart_traces_colors_witness:
  "trace_color (create_chart_traces wide_dataset ! 0) = ''#FF6B6B'' \<and>
   trace_color (create_chart_traces wide_dataset ! 20) = trace_color (create_chart_traces wide_dataset ! 0) \<and>
   trace_color (create_chart_traces wide_dataset ! 1) \<noteq> trace_color (create_chart_traces wide_dataset ! 0)"
proof -
  have n: "length (create_chart_traces wide_dataset) = 21"
    by (simp add: wide_dataset_def)
  have a: "trace_color (create_chart_traces wide_dataset ! 0) = chart_colors ! (0 mod 20) \<and>
      (trace_color (create_chart_traces wide_dataset ! 0) = trace_color (create_chart_traces wide_dataset ! 20)
         \<longleftrightarrow> (0::nat) mod 20 = 20 mod 20)"
    using n by (intro create_chart_traces_colors) simp_all
  have b: "trace_color (create_chart_traces wide_dataset ! 1) = chart_colors ! (1 mod 20) \<and>
      (trace_color (create_chart_traces wide_dataset ! 1) = trace_color (create_chart_traces wide_dataset ! 0)
         \<longleftrightarrow> (1::nat) mod 20 = 0 mod 20)"
    using n by (intro create_chart_traces_colors) simp_all
  have "chart_colors ! (0 mod 20) = ''#FF6B6B''"
    by (simp add: chart_colors_def)
  with a b show ?thesis by auto
qed

end
