(* ===== verification/Annotations.thy ===== *)
theory Annotations
  imports Dataset "HOL-Library.Sublist"
begin

text \<open>
  The annotation builder \<open>createDynamicAnnotations\<close> (src/app.js lines
  210--299) with its lookup \<open>getCategoryValue\<close> (lines 214--218). The code
  tests three hand-written (category, year) triggers one after the other; the
  model lists them in \<open>annotation_triggers\<close>, in the code's order, and runs
  the same test on each. An annotation is pushed only when the lookup gives a
  value \<open>> 0\<close>; \<open>undefined > 0\<close> is false in JavaScript, so an index past
  the end of a series suppresses the annotation too.
\<close>

section \<open>Definitions\<close>

text \<open>
  A Plotly \<open>font\<close> object; the objects of the code set different subsets of
  its keys, and a key they leave out is \<open>None\<close>.
\<close>

record font =
  font_family :: "string option"
  font_size :: "nat option"
  font_color :: "string option"

definition annotation_font :: font where
  "annotation_font =
     \<lparr>font_family = Some ''-apple-system, BlinkMacSystemFont, sans-serif'', font_size = Some 11,
      font_color = Some ''#1a202c''\<rparr>"

record annotation =
  ann_x :: int
  ann_y :: int
  ann_text :: string
  ann_showarrow :: bool
  ann_arrowhead :: nat
  ann_arrowsize :: nat
  ann_arrowwidth :: nat
  ann_arrowcolor :: string
  ann_ax :: int
  ann_ay :: int
  ann_font :: font
  ann_bgcolor :: string
  ann_bordercolor :: string
  ann_borderwidth :: nat
  ann_borderpad :: nat

record trigger =
  tg_category :: string
  tg_year :: int
  tg_text :: string
  tg_color :: string

text \<open>
  \<open>getCategoryValue(categoryName, year)\<close>: \<open>0\<close> when the category or the
  year is missing, otherwise the entry at the year's first index, which is
  \<open>undefined\<close> (here \<open>None\<close>) past the end of the series.
\<close>

definition get_category_value :: "dataset \<Rightarrow> string \<Rightarrow> int \<Rightarrow> int option" where
  "get_category_value d category_name year =
     (case map_of (ds_categories d) category_name of
        None \<Rightarrow> Some 0
      | Some values \<Rightarrow>
          (case index_of (ds_years d) year of
             None \<Rightarrow> Some 0
           | Some year_index \<Rightarrow> nth_opt values year_index))"

definition annotation_triggers :: "trigger list" where
  "annotation_triggers =
     [\<lparr>tg_category = ''Machine Learning & AI'', tg_year = 2024,
       tg_text = ''LLMs<br>Emerge'', tg_color = ''#FF6B6B''\<rparr>,
      \<lparr>tg_category = ''Social Sciences & Demographics'', tg_year = 2019,
       tg_text = ''Census<br>Focus'', tg_color = ''#ed8936''\<rparr>,
      \<lparr>tg_category = ''Pandemic & Public Health'', tg_year = 2020,
       tg_text = ''COVID-19<br>Impact'', tg_color = ''#48bb78''\<rparr>]"

text \<open>The object pushed by each of the three blocks (e.g. lines 223--243).\<close>

definition make_annotation :: "trigger \<Rightarrow> int \<Rightarrow> annotation" where
  "make_annotation t v =
     \<lparr>ann_x = tg_year t, ann_y = v, ann_text = tg_text t, ann_showarrow = True,
      ann_arrowhead = 2, ann_arrowsize = 1, ann_arrowwidth = 2, ann_arrowcolor = tg_color t,
      ann_ax = 0, ann_ay = -40, ann_font = annotation_font,
      ann_bgcolor = ''rgba(255,255,255,0.9)'', ann_bordercolor = tg_color t,
      ann_borderwidth = 1, ann_borderpad = 4\<rparr>"

fun emit_annotations :: "dataset \<Rightarrow> trigger list \<Rightarrow> annotation list" where
  "emit_annotations d [] = []"
| "emit_annotations d (t # ts) =
     (case get_category_value d (tg_category t) (tg_year t) of
        Some v \<Rightarrow> (if 0 < v then make_annotation t v # emit_annotations d ts
                  else emit_annotations d ts)
      | None \<Rightarrow> emit_annotations d ts)"

definition create_dynamic_annotations :: "dataset \<Rightarrow> annotation list" where
  "create_dynamic_annotations d = emit_annotations d annotation_triggers"

text \<open>
  The category names of the README's classification (src/unnamed/part_000,
  lines 38--47), for comparison with the names the triggers look up.
\<close>

definition readme_categories :: "string list" where
  "readme_categories =
     [''Machine Learning & AI'', ''Finance & Economics'', ''Mathematics & Theory'',
      ''Social & Urban Studies'', ''Sports & Gaming'', ''Climate & Weather'',
      ''Health & Medicine'', ''Physics & Quantum'', ''Technology & Computer Science'',
      ''Creative Applications'']"

text \<open>The value a trigger's test sees, positive or not.\<close>

definition data_point :: "dataset \<Rightarrow> string \<Rightarrow> int \<Rightarrow> int option" where
  "data_point d c y =
     (case (map_of (ds_categories d) c, index_of (ds_years d) y) of
        (Some vs, Some i) \<Rightarrow> nth_opt vs i
      | _ \<Rightarrow> None)"

text \<open>
  A dataset with the README's category names and the spikes the README
  reports (Census 2019, COVID 2020).
\<close>

definition readme_dataset :: dataset where
  "readme_dataset = \<lparr>ds_years = [2019, 2020, 2024],
     ds_categories = [(''Machine Learning & AI'', [4, 5, 9]), (''Social & Urban Studies'', [7, 1, 2]),
                      (''Health & Medicine'', [0, 6, 1])],
     ds_markers = None\<rparr>"

section \<open>Lemmas\<close>

lemmas [eval_simps] = annotation_triggers_def make_annotation_def get_category_value_def
  readme_categories_def data_point_def

lemma get_category_value_pos:
  "(get_category_value d c y = Some v \<and> 0 < v) \<longleftrightarrow> (data_point d c y = Some v \<and> 0 < v)"
  by (cases "map_of (ds_categories d) c"; cases "index_of (ds_years d) y")
     (simp_all add: get_category_value_def data_point_def del: index_of_None)

lemma set_emit_annotations:
  "a \<in> set (emit_annotations d ts) \<longleftrightarrow>
   (\<exists>t v. t \<in> set ts \<and> data_point d (tg_category t) (tg_year t) = Some v \<and> 0 < v \<and>
      a = make_annotation t v)"
proof (induction ts)
  case (Cons t ts)
  let ?g = "get_category_value d (tg_category t) (tg_year t)"
  let ?p = "data_point d (tg_category t) (tg_year t)"
  show ?case
  proof (cases "\<exists>v. ?g = Some v \<and> 0 < v")
    case True
    then obtain v where v: "?g = Some v" "0 < v" by blast
    then have "?p = Some v" using get_category_value_pos by blast
    with v Cons.IH show ?thesis by auto
  next
    case False
    then have "emit_annotations d (t # ts) = emit_annotations d ts"
      by (auto split: option.splits)
    moreover have "\<not> (\<exists>v. ?p = Some v \<and> 0 < v)"
      using False get_category_value_pos by blast
    ultimately show ?thesis using Cons.IH by auto
  qed
qed simp

lemma subseq_emit_annotations:
  "subseq (map ann_text (emit_annotations d ts)) (map tg_text ts)"
proof (induction ts)
  case (Cons t ts)
  then show ?case by (auto simp: make_annotation_def split: option.splits)
qed simp

lemma data_point_Some:
  "data_point d c y = Some v \<longleftrightarrow>
   (\<exists>vs i. map_of (ds_categories d) c = Some vs \<and> index_of (ds_years d) y = Some i \<and>
      i < length vs \<and> vs ! i = v)"
  by (cases "map_of (ds_categories d) c"; cases "index_of (ds_years d) y")
     (auto simp: data_point_def simp del: index_of_None)

lemma distinct_trigger_texts: "distinct (map tg_text annotation_triggers)"
  by (simp add: annotation_triggers_def)

lemma trigger_text_inj:
  "t \<in> set annotation_triggers \<Longrightarrow> t' \<in> set annotation_triggers \<Longrightarrow>
   tg_text t' = tg_text t \<Longrightarrow> t' = t"
  using distinct_trigger_texts by (auto dest: inj_onD simp: distinct_map)

subsection \<open>Properties of the annotation builder\<close>

text \<open>
  C11. A trigger's annotation is shown exactly when the dataset has the
  category, the year is on the axis, and the category's count at the year's
  first index is positive (spec 4.2).
\<close>

theorem annotation_shown_iff:
  assumes "t \<in> set annotation_triggers"
  shows "tg_text t \<in> set (map ann_text (create_dynamic_annotations d)) \<longleftrightarrow>
    (\<exists>vs i. map_of (ds_categories d) (tg_category t) = Some vs \<and>
       index_of (ds_years d) (tg_year t) = Some i \<and> i < length vs \<and> 0 < vs ! i)"
proof
  assume "tg_text t \<in> set (map ann_text (create_dynamic_annotations d))"
  then obtain a where a: "a \<in> set (create_dynamic_annotations d)" and at: "ann_text a = tg_text t"
    by auto
  from a obtain t' v where t': "t' \<in> set annotation_triggers"
    and p: "data_point d (tg_category t') (tg_year t') = Some v" and v: "0 < v"
    and a_eq: "a = make_annotation t' v"
    by (auto simp: create_dynamic_annotations_def set_emit_annotations)
  from at a_eq have "tg_text t' = tg_text t" by (simp add: make_annotation_def)
  with assms t' have "t' = t" by (intro trigger_text_inj)
  with p v show "\<exists>vs i. map_of (ds_categories d) (tg_category t) = Some vs \<and>
       index_of (ds_years d) (tg_year t) = Some i \<and> i < length vs \<and> 0 < vs ! i"
    by (auto simp: data_point_Some)
next
  assume "\<exists>vs i. map_of (ds_categories d) (tg_category t) = Some vs \<and>
       index_of (ds_years d) (tg_year t) = Some i \<and> i < length vs \<and> 0 < vs ! i"
  then obtain vs i where "map_of (ds_categories d) (tg_category t) = Some vs"
    and "index_of (ds_years d) (tg_year t) = Some i" and "i < length vs" and pos: "0 < vs ! i"
    by blast
  then have "data_point d (tg_category t) (tg_year t) = Some (vs ! i)"
    by (auto simp: data_point_Some)
  with assms pos have "make_annotation t (vs ! i) \<in> set (create_dynamic_annotations d)"
    by (auto simp: create_dynamic_annotations_def set_emit_annotations)
  then show "tg_text t \<in> set (map ann_text (create_dynamic_annotations d))"
    by (force simp: make_annotation_def)
qed

lemma annotation_shown_iff_witness:
  "''LLMs<br>Emerge'' \<in> set (map ann_text (create_dynamic_annotations readme_dataset))"
proof -
  let ?t = "\<lparr>tg_category = ''Machine Learning & AI'', tg_year = 2024,
       tg_text = ''LLMs<br>Emerge'', tg_color = ''#FF6B6B''\<rparr>"
  have t: "?t \<in> set annotation_triggers" by (simp add: annotation_triggers_def)
  have "\<exists>vs i. map_of (ds_categories readme_dataset) (tg_category ?t) = Some vs \<and>
       index_of (ds_years readme_dataset) (tg_year ?t) = Some i \<and> i < length vs \<and> 0 < vs ! i"
    by (simp add: readme_dataset_def)
  with annotation_shown_iff [OF t, of readme_dataset] show ?thesis by simp
qed

text \<open>
  C12. Every annotation marks a real data point: its trigger's category is in
  the dataset, its \<open>x\<close> is a year of the axis and its \<open>y\<close> is the
  category's positive count in that year (never a default \<open>0\<close> or an
  \<open>undefined\<close>).
\<close>

theorem annotations_anchored:
  assumes "a \<in> set (create_dynamic_annotations d)"
  shows "\<exists>t vs i. t \<in> set annotation_triggers \<and> map_of (ds_categories d) (tg_category t) = Some vs \<and>
     i < length (ds_years d) \<and> i < length vs \<and> ann_x a = ds_years d ! i \<and> ann_y a = vs ! i \<and>
     0 < ann_y a \<and> ann_text a = tg_text t"
proof -
  from assms obtain t v where t: "t \<in> set annotation_triggers"
    and p: "data_point d (tg_category t) (tg_year t) = Some v" and v: "0 < v"
    and a: "a = make_annotation t v"
    by (auto simp: create_dynamic_annotations_def set_emit_annotations)
  from p obtain vs i where m: "map_of (ds_categories d) (tg_category t) = Some vs"
    and i: "index_of (ds_years d) (tg_year t) = Some i" and l: "i < length vs" and e: "vs ! i = v"
    by (auto simp: data_point_Some)
  from index_of_Some [OF i] have "i < length (ds_years d)" and "ds_years d ! i = tg_year t"
    by simp_all
  with t m l e v a show ?thesis
    by (intro exI [where x = t] exI [where x = vs] exI [where x = i])
       (simp add: make_annotation_def)
qed

lemma annotations_anchored_witness:
  "create_dynamic_annotations readme_dataset = [make_annotation (hd annotation_triggers) 9] \<and>
   (\<exists>vs i. i < length vs \<and> ann_y (make_annotation (hd annotation_triggers) 9) = vs ! i \<and>
      ann_x (make_annotation (hd annotation_triggers) 9) = ds_years readme_dataset ! i)"
proof -
  have eq: "create_dynamic_annotations readme_dataset = [make_annotation (hd annotation_triggers) 9]"
    by (simp add: create_dynamic_annotations_def readme_dataset_def eval_simps js_simps)
  have "make_annotation (hd annotation_triggers) 9 \<in> set (create_dynamic_annotations readme_dataset)"
    by (simp add: eq)
  from annotations_anchored [OF this] eq show ?thesis by blast
qed

text \<open>
  C13. At most one annotation per trigger, in the order of the code's three
  blocks.
\<close>

theorem annotations_ordered:
  "subseq (map ann_text (create_dynamic_annotations d))
     [''LLMs<br>Emerge'', ''Census<br>Focus'', ''COVID-19<br>Impact'']"
  using subseq_emit_annotations [of d annotation_triggers]
  by (simp add: create_dynamic_annotations_def annotation_triggers_def)

text \<open>
  C14. The triggers look up \<open>Social Sciences & Demographics\<close> and
  \<open>Pandemic & Public Health\<close>, names that are not among the README's
  categories: on a dataset whose categories are named as in the README, the
  Census and COVID-19 annotations never appear, whatever the counts.
\<close>

theorem readme_categories_annotations:
  assumes "set (map fst (ds_categories d)) \<subseteq> set readme_categories"
  shows "map ann_text (create_dynamic_annotations d) \<in> {[], [''LLMs<br>Emerge'']}"
proof -
  have "map_of (ds_categories d) ''Social Sciences & Demographics'' = None"
    and "map_of (ds_categories d) ''Pandemic & Public Health'' = None"
    using assms by (auto simp: map_of_eq_None_iff readme_categories_def)
  then show ?thesis
    by (auto simp: create_dynamic_annotations_def annotation_triggers_def get_category_value_def
                   make_annotation_def split: option.splits)
qed

lemma readme_categories_annotations_witness:
  "map ann_text (create_dynamic_annotations readme_dataset) = [''LLMs<br>Emerge'']"
proof -
  have "set (map fst (ds_categories readme_dataset)) \<subseteq> set readme_categories"
    by (simp add: readme_dataset_def readme_categories_def)
  from readme_categories_annotations [OF this]
  have "map ann_text (create_dynamic_annotations readme_dataset) \<in> {[], [''LLMs<br>Emerge'']}" .
  moreover have "create_dynamic_annotations readme_dataset \<noteq> []"
    by (simp add: create_dynamic_annotations_def readme_dataset_def eval_simps js_simps)
  ultimately show ?thesis by auto
qed

end
