(* ===== verification/Layout.thy ===== *)
theory Layout
  imports Complex_Main Annotations
begin

text \<open>
  The layout builder \<open>createChartLayout\<close> (src/app.js lines 306--374): the
  Plotly layout object, with the title, the two axes (the x axis ticks are
  the dataset's years, labelled by \<open>year.toString()\<close>), the backgrounds,
  the hover label, the legend, the margins and the annotations of
  \<open>createDynamicAnnotations\<close>. Each nested object is a record; a key an
  object leaves out is \<open>None\<close>; fractional positions are reals.
\<close>

section \<open>Definitions\<close>

record layout_title =
  ti_text :: string
  ti_font :: font
  ti_x :: real
  ti_xanchor :: string

record axis_title =
  at_text :: string
  at_font :: font

record axis =
  ax_title :: axis_title
  ax_tickmode :: "string option"
  ax_tickvals :: "int list option"
  ax_ticktext :: "string list option"
  ax_gridcolor :: string
  ax_gridwidth :: nat
  ax_linecolor :: string
  ax_linewidth :: nat
  ax_tickfont :: font
  ax_rangemode :: "string option"

record hoverlabel =
  hl_bgcolor :: string
  hl_bordercolor :: string
  hl_font :: font

record legend =
  lg_orientation :: string
  lg_yanchor :: string
  lg_y :: real
  lg_xanchor :: string
  lg_x :: real
  lg_font :: font
  lg_bgcolor :: string
  lg_bordercolor :: string
  lg_borderwidth :: nat

record margin =
  mg_l :: nat
  mg_r :: nat
  mg_t :: nat
  mg_b :: nat

record layout =
  lay_title :: layout_title
  lay_xaxis :: axis
  lay_yaxis :: axis
  lay_plot_bgcolor :: string
  lay_paper_bgcolor :: string
  lay_hovermode :: string
  lay_hoverlabel :: hoverlabel
  lay_legend :: legend
  lay_margin :: margin
  lay_annotations :: "annotation list"

text \<open>A font object with the given keys.\<close>

definition mk_font :: "string option \<Rightarrow> nat option \<Rightarrow> string option \<Rightarrow> font" where
  "mk_font fam sz col = \<lparr>font_family = fam, font_size = sz, font_color = col\<rparr>"

text \<open>The fonts both axes use for their titles (lines 321, 335) and ticks (lines 330, 341).\<close>

definition axis_title_font :: font where
  "axis_title_font = mk_font None (Some 14) (Some ''#4a5568'')"

definition tick_font :: font where
  "tick_font = mk_font None None (Some ''#4a5568'')"

definition create_chart_layout :: "dataset \<Rightarrow> layout" where
  "create_chart_layout d =
     \<lparr>lay_title =
        \<lparr>ti_text = ''Academic Topic Evolution (2013-2024)'',
         ti_font = mk_font (Some ''-apple-system, BlinkMacSystemFont, sans-serif'') (Some 20)
                     (Some ''#1a202c''),
         ti_x = 0.5, ti_xanchor = ''center''\<rparr>,
      lay_xaxis =
        \<lparr>ax_title = \<lparr>at_text = ''Year'', at_font = axis_title_font\<rparr>,
         ax_tickmode = Some ''array'', ax_tickvals = Some (ds_years d),
         ax_ticktext = Some (map int_to_dec (ds_years d)),
         ax_gridcolor = ''#e2e8f0'', ax_gridwidth = 1, ax_linecolor = ''#cbd5e0'', ax_linewidth = 2,
         ax_tickfont = tick_font, ax_rangemode = None\<rparr>,
      lay_yaxis =
        \<lparr>ax_title = \<lparr>at_text = ''Number of Topics'', at_font = axis_title_font\<rparr>,
         ax_tickmode = None, ax_tickvals = None, ax_ticktext = None,
         ax_gridcolor = ''#e2e8f0'', ax_gridwidth = 1, ax_linecolor = ''#cbd5e0'', ax_linewidth = 2,
         ax_tickfont = tick_font, ax_rangemode = Some ''tozero''\<rparr>,
      lay_plot_bgcolor = ''#ffffff'', lay_paper_bgcolor = ''#ffffff'',
      lay_hovermode = ''closest'',
      lay_hoverlabel =
        \<lparr>hl_bgcolor = ''#1a202c'', hl_bordercolor = ''#4a5568'',
         hl_font = mk_font None (Some 12) (Some ''#ffffff'')\<rparr>,
      lay_legend =
        \<lparr>lg_orientation = ''v'', lg_yanchor = ''top'', lg_y = 1, lg_xanchor = ''left'', lg_x = 1.02,
         lg_font = mk_font None (Some 11) (Some ''#4a5568''),
         lg_bgcolor = ''rgba(255,255,255,0.8)'', lg_bordercolor = ''#e2e8f0'', lg_borderwidth = 1\<rparr>,
      lay_margin = \<lparr>mg_l = 80, mg_r = 140, mg_t = 80, mg_b = 80\<rparr>,
      lay_annotations = create_dynamic_annotations d\<rparr>"

end
