(* ===== verification/Debounce.thy ===== *)
theory Debounce
  imports Prelude
begin

text \<open>
  The utility \<open>debounce(func, wait)\<close> (src/app.js lines 416--426). The
  closure keeps one variable, \<open>timeout\<close>, the pending timer; each call of the
  returned function clears it and sets a new timer for \<open>wait\<close> ms that will
  run \<open>func\<close> with the call's arguments. The state is the pending timer's
  deadline and captured arguments (\<open>None\<close> once it has run or before the
  first call). The browser's event loop is modelled by time-stamped events:
  a call of the debounced function, or the clock reaching a time; before an
  event at time \<open>now\<close> is handled, a timer due at or before \<open>now\<close> runs.
  A run of \<open>func\<close> is recorded with the time it happens, its deadline.
\<close>

section \<open>Definitions\<close>

record 'a debouncer =
  pending :: "(nat \<times> 'a) option"

definition initial_debouncer :: "'a debouncer" where
  "initial_debouncer = \<lparr>pending = None\<rparr>"

datatype 'a debounce_event = Invoke nat 'a | Clock nat

text \<open>The event loop runs the timer \<open>later\<close> once its deadline has come.\<close>

definition advance_clock :: "nat \<Rightarrow> 'a debouncer \<Rightarrow> 'a debouncer \<times> (nat \<times> 'a) list" where
  "advance_clock now st =
     (case pending st of
        Some (deadline, args) \<Rightarrow>
          (if deadline \<le> now then (st\<lparr>pending := None\<rparr>, [(deadline, args)]) else (st, []))
      | None \<Rightarrow> (st, []))"

text \<open>\<open>executedFunction(...args)\<close>: \<open>clearTimeout(timeout); timeout = setTimeout(later, wait)\<close>.\<close>

definition debounced_call :: "nat \<Rightarrow> nat \<Rightarrow> 'a \<Rightarrow> 'a debouncer \<Rightarrow> 'a debouncer" where
  "debounced_call wait now args st = st\<lparr>pending := Some (now + wait, args)\<rparr>"

fun debounce_step :: "nat \<Rightarrow> 'a debouncer \<Rightarrow> 'a debounce_event \<Rightarrow> 'a debouncer \<times> (nat \<times> 'a) list" where
  "debounce_step wait st (Invoke now args) =
     (let (st', ran) = advance_clock now st in (debounced_call wait now args st', ran))"
| "debounce_step wait st (Clock now) = advance_clock now st"

fun debounce_run :: "nat \<Rightarrow> 'a debouncer \<Rightarrow> 'a debounce_event list \<Rightarrow> 'a debouncer \<times> (nat \<times> 'a) list" where
  "debounce_run wait st [] = (st, [])"
| "debounce_run wait st (e # es) =
     (let (st', ran) = debounce_step wait st e; (st'', ran') = debounce_run wait st' es
      in (st'', ran @ ran'))"

subsection \<open>The trailing-edge contract\<close>

text \<open>
  What a debounced function promises: a call runs \<open>func\<close>, once and exactly
  \<open>wait\<close> ms later, when time reaches that deadline before any further call
  happens; a call followed by another call before its deadline is dropped.
\<close>

fun event_time :: "'a debounce_event \<Rightarrow> nat" where
  "event_time (Invoke t _) = t"
| "event_time (Clock t) = t"

fun reached_before_call :: "nat \<Rightarrow> 'a debounce_event list \<Rightarrow> bool" where
  "reached_before_call deadline [] = False"
| "reached_before_call deadline (e # es) =
     (deadline \<le> event_time e \<or>
      (case e of Invoke _ _ \<Rightarrow> False | Clock _ \<Rightarrow> reached_before_call deadline es))"

fun debounce_spec :: "nat \<Rightarrow> 'a debounce_event list \<Rightarrow> (nat \<times> 'a) list" where
  "debounce_spec wait [] = []"
| "debounce_spec wait (Clock t # es) = debounce_spec wait es"
| "debounce_spec wait (Invoke t args # es) =
     (if reached_before_call (t + wait) es then [(t + wait, args)] else []) @ debounce_spec wait es"

fun is_invoke :: "'a debounce_event \<Rightarrow> bool" where
  "is_invoke (Invoke _ _) = True"
| "is_invoke (Clock _) = False"

definition time_ordered :: "'a debounce_event list \<Rightarrow> bool" where
  "time_ordered es \<longleftrightarrow> sorted (map event_time es)"

section \<open>Lemmas\<close>

lemma debounce_run_pending:
  "snd (debounce_run wait \<lparr>pending = p\<rparr> es) =
     (case p of
        None \<Rightarrow> []
      | Some (deadline, args) \<Rightarrow> (if reached_before_call deadline es then [(deadline, args)] else []))
     @ debounce_spec wait es"
proof (induction es arbitrary: p)
  case Nil
  then show ?case by (simp split: option.splits)
next
  case (Cons e es)
  show ?case
  proof (cases e)
    case (Invoke t args)
    then show ?thesis
      using Cons.IH [of "Some (t + wait, args)"]
      by (auto simp: advance_clock_def debounced_call_def split: option.splits prod.splits)
  next
    case (Clock t)
    then show ?thesis
      using Cons.IH [of p] Cons.IH [of None]
      by (auto simp: advance_clock_def split: option.splits prod.splits)
  qed
qed

lemma debounce_run_append:
  "debounce_run wait st (xs @ ys) =
     (let (st1, r1) = debounce_run wait st xs; (st2, r2) = debounce_run wait st1 ys in (st2, r1 @ r2))"
  by (induction xs arbitrary: st) (auto split: prod.splits)

lemma length_debounce_spec: "length (debounce_spec wait es) \<le> length (filter is_invoke es)"
  by (induction wait es rule: debounce_spec.induct) auto

lemma set_debounce_spec:
  "x \<in> set (debounce_spec wait es) \<Longrightarrow> \<exists>t a. Invoke t a \<in> set es \<and> x = (t + wait, a)"
  by (induction wait es rule: debounce_spec.induct) (auto split: if_splits)

lemma reached_before_call_later_invokes:
  "reached_before_call deadline es \<Longrightarrow> sorted (map event_time es) \<Longrightarrow>
   Invoke t a \<in> set es \<Longrightarrow> deadline \<le> t"
proof (induction es)
  case (Cons e es)
  show ?case
  proof (cases "deadline \<le> event_time e")
    case True
    with Cons.prems(2,3) show ?thesis by fastforce
  next
    case False
    with Cons.prems(1) obtain c where "e = Clock c" and "reached_before_call deadline es"
      by (cases e) auto
    with Cons.IH Cons.prems(2,3) show ?thesis by auto
  qed
qed simp

lemma debounce_spec_spaced:
  "sorted (map event_time es) \<Longrightarrow>
   sorted_wrt (\<lambda>x y. fst x + wait \<le> fst y) (debounce_spec wait es)"
proof (induction wait es rule: debounce_spec.induct)
  case (3 wait t args es)
  then have tail: "sorted_wrt (\<lambda>x y. fst x + wait \<le> fst y) (debounce_spec wait es)"
    by simp
  have "t + wait + wait \<le> fst y"
    if "reached_before_call (t + wait) es" and "y \<in> set (debounce_spec wait es)" for y
  proof -
    from set_debounce_spec [OF that(2)] obtain t' a where
      "Invoke t' a \<in> set es" and "y = (t' + wait, a)" by blast
    moreover from this "3.prems" that(1) have "t + wait \<le> t'"
      by (auto intro: reached_before_call_later_invokes)
    ultimately show ?thesis by simp
  qed
  with tail show ?case by auto
qed simp_all

subsection \<open>Properties of the debounced resize handler\<close>

text \<open>
  C15. Refinement: from its initial state the debounced function runs
  \<open>func\<close> exactly as the trailing-edge contract says, with the arguments of
  each call that no further call follows within \<open>wait\<close> ms, at that call's
  time plus \<open>wait\<close>.
\<close>

theorem debounce_refines_spec:
  "snd (debounce_run wait initial_debouncer es) = debounce_spec wait es"
  using debounce_run_pending [of wait None es] by (simp add: initial_debouncer_def)

text \<open>Bursts collapse: \<open>func\<close> runs at most once per call.\<close>

lemma debounce_at_most_once_per_call:
  "length (snd (debounce_run wait initial_debouncer es)) \<le> length (filter is_invoke es)"
  using debounce_run_pending [of wait None es] length_debounce_spec [of wait es]
  by (simp add: initial_debouncer_def)

text \<open>
  C17. The last call is never lost: whatever happened before, a call followed
  by the clock reaching its deadline runs \<open>func\<close> with that call's arguments,
  \<open>wait\<close> ms after the call.
\<close>

theorem debounce_last_call_runs:
  assumes "t + wait \<le> t'"
  shows "\<exists>ran. snd (debounce_run wait st (es @ [Invoke t args, Clock t'])) = ran @ [(t + wait, args)]"
proof -
  obtain st1 r1 where r1: "debounce_run wait st es = (st1, r1)" by fastforce
  obtain st2 r2 where a: "advance_clock t st1 = (st2, r2)" by fastforce
  have "debounce_run wait st1 [Invoke t args, Clock t'] =
        (st2\<lparr>pending := None\<rparr>, r2 @ [(t + wait, args)])"
    using a assms by (simp add: debounced_call_def advance_clock_def)
  with r1 show ?thesis by (simp add: debounce_run_append)
qed

lemma debounce_last_call_runs_witness:
  "snd (debounce_run 250 initial_debouncer [Invoke 0 (), Invoke 100 (), Clock 350]) = [(350, ())]"
proof -
  obtain ran where "snd (debounce_run 250 initial_debouncer ([Invoke 0 ()] @ [Invoke 100 (), Clock 350]))
      = ran @ [(100 + 250, ())]"
    using debounce_last_call_runs [of 100 250 350 initial_debouncer "[Invoke 0 ()]" "()"] by auto
  moreover have "length (snd (debounce_run 250 initial_debouncer [Invoke 0 (), Invoke 100 (), Clock 350])) = 1"
    by (simp add: initial_debouncer_def advance_clock_def debounced_call_def)
  ultimately show ?thesis by auto
qed

text \<open>
  C18. On events in time order, two runs of \<open>func\<close> are at least \<open>wait\<close> ms
  apart: the handler never runs more often than once per \<open>wait\<close>.
\<close>

theorem debounce_runs_spaced:
  assumes "time_ordered es"
  shows "sorted_wrt (\<lambda>x y. fst x + wait \<le> fst y) (snd (debounce_run wait initial_debouncer es))"
  using debounce_run_pending [of wait None es] debounce_spec_spaced assms
  by (simp add: initial_debouncer_def time_ordered_def)

lemma debounce_runs_spaced_witness:
  "snd (debounce_run 250 initial_debouncer
     [Invoke 0 (), Clock 300, Invoke 400 (), Clock 700]) = [(250, ()), (650, ())] \<and>
   sorted_wrt (\<lambda>x y. fst x + 250 \<le> fst y) [(250::nat, ()), (650, ())]"
proof -
  have o: "time_ordered [Invoke 0 (), Clock 300, Invoke 400 (), Clock (700::nat)]"
    by (simp add: time_ordered_def)
  have r: "snd (debounce_run 250 initial_debouncer [Invoke 0 (), Clock 300, Invoke 400 (), Clock 700])
      = [(250, ()), (650, ())]"
    by (simp add: initial_debouncer_def advance_clock_def debounced_call_def)
  from debounce_runs_spaced [OF o, of 250] r show ?thesis by simp
qed

end
