(* ===== verification/App.thy ===== *)
theory App
  imports Traces Layout Debounce
begin

text \<open>
  The page's top level (src/app.js lines 380--477): \<open>renderChart\<close>,
  \<open>initializeApp\<close> and the listeners for \<open>DOMContentLoaded\<close>, \<open>resize\<close>,
  \<open>error\<close> and \<open>unhandledrejection\<close>. The two awaits of the start-up
  sequence (\<open>fetch\<close> in the loader and \<open>Plotly.newPlot\<close> in the renderer)
  split it into steps; the browser delivers their outcomes as events, in any
  interleaving with resize, timer and error events. \<open>app_step\<close> is the
  handler of one event; \<open>reachable\<close> the states some sequence of events
  produces from a fresh page.
\<close>

section \<open>Definitions\<close>

text \<open>
  \<open>CHART_CONFIG.layout\<close> (lines 39--49), the configuration object
  \<open>renderChart\<close> passes as the fourth argument of \<open>Plotly.newPlot\<close>.
\<close>

record plot_config =
  cfg_responsive :: bool
  cfg_display_mode_bar :: bool
  cfg_displaylogo :: bool
  cfg_buttons_to_remove :: "string list"

definition chart_config :: plot_config where
  "chart_config =
     \<lparr>cfg_responsive = True, cfg_display_mode_bar = True, cfg_displaylogo = False,
      cfg_buttons_to_remove = [''pan2d'', ''lasso2d'', ''select2d'', ''autoScale2d'']\<rparr>"

text \<open>
  What a drawn chart holds: the traces, the layout and the configuration
  handed to \<open>Plotly.newPlot\<close> (lines 383--391), for a numeric document.
\<close>

type_synonym chart = "(trace list \<times> layout \<times> plot_config) option"

definition chart_of :: "json \<Rightarrow> chart" where
  "chart_of d =
     map_option (\<lambda>ds. (create_chart_traces ds, create_chart_layout ds, chart_config)) (to_dataset d)"

text \<open>Where the start-up sequence of \<open>initializeApp\<close> is suspended.\<close>

datatype phase = NotStarted | AwaitFetch | AwaitPlot json | Settled

datatype app_event =
    DomContentLoaded
  | FetchSettled fetch_outcome      \<comment> \<open>the fetch of \<open>data.json\<close> and its parse settle\<close>
  | PlotSettled bool                \<comment> \<open>\<open>Plotly.newPlot\<close> resolves (\<open>True\<close>) or rejects\<close>
  | WindowResize nat                \<comment> \<open>a \<open>resize\<close> event at a time in ms\<close>
  | ClockTick nat                   \<comment> \<open>time passes; due timers run\<close>
  | WindowError string              \<comment> \<open>an uncaught error\<close>
  | UnhandledRejection string

record app_state =
  pg :: "chart page"
  phase :: phase
  resize_listeners :: nat
  resize_timer :: "unit debouncer"
  plotly_resizes :: nat

definition initial_app :: "bool \<Rightarrow> app_state" where
  "initial_app has_mount =
     \<lparr>pg = initial_page has_mount, phase = NotStarted, resize_listeners = 0,
      resize_timer = initial_debouncer, plotly_resizes = 0\<rparr>"

definition resize_wait :: nat where
  "resize_wait = 250"

text \<open>
  \<open>renderChart\<close> after its await (lines 386--405). \<open>Plotly.newPlot\<close> fails
  when the page has no element \<open>#evolution-chart\<close>; on success the chart
  replaces the region, \<open>AppState.chartInstance\<close> is set and one more
  debounced \<open>resize\<close> listener is added; on failure the catch shows its
  message. Either way \<open>initializeApp\<close> then logs its success (line 446),
  since \<open>renderChart\<close> does not rethrow.
\<close>

definition render_chart_settled :: "bool \<Rightarrow> json \<Rightarrow> app_state \<Rightarrow> app_state" where
  "render_chart_settled ok d s =
     (let p = pg s in
      if ok \<and> region p \<noteq> None then
        s\<lparr>pg := p\<lparr>chart_instance := True, region := Some (RChart (chart_of d)),
                   console := console p @ [LogInfo ''Chart rendered successfully'',
                                           LogInfo ''Application initialized successfully'']\<rparr>,
          resize_listeners := Suc (resize_listeners s), phase := Settled\<rparr>
      else
        s\<lparr>pg := (let p1 = show_error_state ''Failed to render chart visualization''
                        (log_error ''renderChart'' ''Plotly.newPlot failed'' p)
                  in p1\<lparr>console := console p1 @ [LogInfo ''Application initialized successfully'']\<rparr>),
          phase := Settled\<rparr>)"

text \<open>
  \<open>initializeApp\<close> once the loader's \<open>fetch\<close> settles (lines 438--451):
  the rest of \<open>loadTopicData\<close> runs (\<open>load_settled\<close>); a \<open>null\<close> result
  throws \<open>Failed to load required data\<close>, whose catch replaces the region
  with its own message; a document goes on to \<open>renderChart\<close>, whose
  \<open>Plotly.newPlot\<close> is then awaited.
\<close>

definition init_after_load :: "fetch_outcome \<Rightarrow> app_state \<Rightarrow> app_state" where
  "init_after_load r s =
     (case load_settled r (pg s) of
        (p, None) \<Rightarrow>
          s\<lparr>pg := show_error_state ''Application failed to initialize''
                    (log_error ''initializeApp'' ''Failed to load required data'' p),
            phase := Settled\<rparr>
      | (p, Some d) \<Rightarrow> s\<lparr>pg := p, phase := AwaitPlot d\<rparr>)"

text \<open>
  The debounced resize handler (lines 396--400): due timers run first; a run
  of the handler calls \<open>Plotly.Plots.resize\<close> when a chart instance exists.
\<close>

definition run_resize_timer :: "nat \<Rightarrow> app_state \<Rightarrow> app_state" where
  "run_resize_timer now s =
     (let (tm, ran) = advance_clock now (resize_timer s)
      in s\<lparr>resize_timer := tm,
           plotly_resizes := plotly_resizes s +
             (if ran \<noteq> [] \<and> chart_instance (pg s) then 1 else 0)\<rparr>)"

text \<open>
  One event. \<open>DOMContentLoaded\<close> runs the synchronous prefix of the
  start-up sequence: the two log lines (lines 460 and 434) and
  \<open>showLoadingState()\<close> (line 105), up to the \<open>await fetch\<close>. The outcome
  of an await is handled only in the phase that awaits it. A \<open>resize\<close>
  calls every registered debounced handler; the error listeners only log.
\<close>

fun app_step :: "app_state \<Rightarrow> app_event \<Rightarrow> app_state" where
  "app_step s DomContentLoaded =
     (if phase s = NotStarted then
        s\<lparr>pg := show_loading_state ((pg s)\<lparr>console := console (pg s) @
               [LogInfo ''DOM loaded, starting initialization...'', LogInfo ''Initializing application...'']\<rparr>),
          phase := AwaitFetch\<rparr>
      else s)"
| "app_step s (FetchSettled r) = (if phase s = AwaitFetch then init_after_load r s else s)"
| "app_step s (PlotSettled ok) =
     (case phase s of AwaitPlot d \<Rightarrow> render_chart_settled ok d s | _ \<Rightarrow> s)"
| "app_step s (WindowResize now) =
     (let s1 = run_resize_timer now s in
      if 0 < resize_listeners s1
      then s1\<lparr>resize_timer := debounced_call resize_wait now () (resize_timer s1)\<rparr>
      else s1)"
| "app_step s (ClockTick now) = run_resize_timer now s"
| "app_step s (WindowError msg) = s\<lparr>pg := log_error ''Global'' msg (pg s)\<rparr>"
| "app_step s (UnhandledRejection msg) = s\<lparr>pg := log_error ''Promise'' msg (pg s)\<rparr>"

fun app_run :: "app_state \<Rightarrow> app_event list \<Rightarrow> app_state" where
  "app_run s [] = s"
| "app_run s (e # es) = app_run (app_step s e) es"

inductive reachable :: "app_state \<Rightarrow> bool" where
  start: "reachable (initial_app has_mount)"
| step: "reachable s \<Longrightarrow> reachable (app_step s e)"

text \<open>The invariant that every handler keeps.\<close>

definition app_inv :: "app_state \<Rightarrow> bool" where
  "app_inv s \<longleftrightarrow>
     resize_listeners s \<le> 1 \<and>
     (chart_instance (pg s) \<longleftrightarrow> resize_listeners s = 1) \<and>
     (0 < plotly_resizes s \<longrightarrow> chart_instance (pg s)) \<and>
     (pending (resize_timer s) \<noteq> None \<longrightarrow> resize_listeners s = 1) \<and>
     (\<forall>c. region (pg s) = Some (RChart c) \<longrightarrow>
        chart_instance (pg s) \<and>
        (\<exists>d. app_data (pg s) = Some d \<and> validate_data d = Inr d \<and> c = chart_of d)) \<and>
     (phase s \<noteq> Settled \<longrightarrow> \<not> chart_instance (pg s)) \<and>
     (phase s = NotStarted \<longrightarrow> app_data (pg s) = None \<and> region (pg s) \<in> {None, Some RBlank}) \<and>
     (phase s = AwaitFetch \<longrightarrow> app_data (pg s) = None \<and> region (pg s) \<in> {None, Some RLoading}) \<and>
     (\<forall>d. phase s = AwaitPlot d \<longrightarrow> app_data (pg s) = Some d \<and> validate_data d = Inr d)"

text \<open>
  The variant of the start-up sequence: the number of awaited outcomes still
  ahead (the page load, the fetch, \<open>Plotly.newPlot\<close>).
\<close>

fun phase_rank :: "phase \<Rightarrow> nat" where
  "phase_rank NotStarted = 3"
| "phase_rank AwaitFetch = 2"
| "phase_rank (AwaitPlot d) = 1"
| "phase_rank Settled = 0"

text \<open>
  A burst of \<open>resize\<close> events: their times, each less than the debounce wait
  after the one before.
\<close>

fun resize_burst :: "nat list \<Rightarrow> bool" where
  "resize_burst [] = False"
| "resize_burst [t] = True"
| "resize_burst (t # t' # ts) = (t \<le> t' \<and> t' < t + resize_wait \<and> resize_burst (t' # ts))"

text \<open>The start-up sequence of a page whose fetch of \<open>data.json\<close> returns \<open>sample_doc\<close>.\<close>

definition sample_start :: "app_event list" where
  "sample_start = [DomContentLoaded, FetchSettled (Response 200 ''OK'' (BodyJson sample_doc))]"

section \<open>Lemmas\<close>

lemma app_inv_initial: "app_inv (initial_app m)"
  by (simp add: app_inv_def initial_app_def initial_page_def initial_debouncer_def)

lemma run_resize_timer_fields [simp]:
  "pg (run_resize_timer now s) = pg s"
  "phase (run_resize_timer now s) = phase s"
  "resize_listeners (run_resize_timer now s) = resize_listeners s"
  by (simp_all add: run_resize_timer_def split: prod.splits)

lemma run_resize_timer_inv: "app_inv s \<Longrightarrow> app_inv (run_resize_timer now s)"
  by (auto simp: app_inv_def run_resize_timer_def advance_clock_def split: prod.splits option.splits if_splits)

lemma fetch_topic_data_validated: "fetch_topic_data r = Inr d \<Longrightarrow> validate_data d = Inr d"
  by (auto simp: fetch_topic_data_def validate_data_Inr_iff split: fetch_outcome.splits body.splits if_splits)

lemma init_after_load_inv:
  assumes "app_inv s" and "phase s = AwaitFetch"
  shows "app_inv (init_after_load r s)"
proof (cases "fetch_topic_data r")
  case (Inl err)
  with assms show ?thesis
    by (auto simp: app_inv_def init_after_load_def load_settled_def page_ops_simps Let_def)
next
  case (Inr d)
  with assms fetch_topic_data_validated [OF Inr] show ?thesis
    by (auto simp: app_inv_def init_after_load_def load_settled_def page_ops_simps Let_def)
qed

lemma log_error_inv: "app_inv s \<Longrightarrow> app_inv (s\<lparr>pg := log_error ctx msg (pg s)\<rparr>)"
  by (auto simp: app_inv_def log_error_def)

lemma app_step_inv: "app_inv s \<Longrightarrow> app_inv (app_step s e)"
proof (induction s e rule: app_step.induct)
  case (1 s)
  then show ?case by (auto simp: app_inv_def page_ops_simps)
next
  case (2 s r)
  then show ?case by (simp add: init_after_load_inv)
next
  case (3 s ok)
  then show ?case
    by (auto simp: app_inv_def render_chart_settled_def page_ops_simps Let_def split: phase.splits)
next
  case (4 s now)
  then have "app_inv (run_resize_timer now s)" by (rule run_resize_timer_inv)
  then show ?case by (auto simp: app_inv_def debounced_call_def Let_def)
qed (simp_all add: run_resize_timer_inv log_error_inv)

lemma reachable_app_inv: "reachable s \<Longrightarrow> app_inv s"
  by (induction rule: reachable.induct) (simp_all add: app_inv_initial app_step_inv)


lemma reachable_app_run: "reachable s \<Longrightarrow> reachable (app_run s es)"
  by (induction es arbitrary: s) (auto intro: reachable.step)

lemma reachable_initial_run: "reachable (app_run (initial_app m) es)"
  by (intro reachable_app_run reachable.start)

lemma app_run_append: "app_run s (xs @ ys) = app_run (app_run s xs) ys"
  by (induction xs arbitrary: s) auto

lemma app_step_settled:
  "phase s = Settled \<Longrightarrow> region (pg (app_step s e)) = region (pg s) \<and> phase (app_step s e) = Settled"
  by (cases e) (auto simp: log_error_def run_resize_timer_def Let_def split: prod.splits)

lemma sample_start_state:
  "phase (app_run (initial_app True) sample_start) = AwaitPlot sample_doc \<and>
   region (pg (app_run (initial_app True) sample_start)) = Some RLoading \<and>
   resize_timer (app_run (initial_app True) sample_start) = initial_debouncer \<and>
   resize_listeners (app_run (initial_app True) sample_start) = 0 \<and>
   plotly_resizes (app_run (initial_app True) sample_start) = 0"
  by (simp add: sample_start_def initial_app_def initial_page_def init_after_load_def
      load_settled_def fetch_topic_data_def validate_data_cases sample_doc_def
      page_ops_simps eval_simps)

lemma sample_chart_state:
  "region (pg (app_run (initial_app True) (sample_start @ [PlotSettled True]))) =
     Some (RChart (chart_of sample_doc)) \<and>
   phase (app_run (initial_app True) (sample_start @ [PlotSettled True])) = Settled"
  using sample_start_state
  by (simp add: app_run_append render_chart_settled_def Let_def)


subsection \<open>Progress of the start-up sequence\<close>

lemma phase_rank_step: "phase_rank (phase (app_step s e)) \<le> phase_rank (phase s)"
  by (cases e) (auto simp: init_after_load_def render_chart_settled_def run_resize_timer_def
      Let_def split: phase.splits prod.splits option.splits)

lemma phase_rank_run: "phase_rank (phase (app_run s es)) \<le> phase_rank (phase s)"
proof (induction es arbitrary: s)
  case (Cons e es)
  from Cons.IH [of "app_step s e"] phase_rank_step [of s e] show ?case by simp
qed simp

lemma phase_rank_load: "phase_rank (phase (app_step s DomContentLoaded)) \<le> 2"
  by (cases "phase s") simp_all

lemma phase_rank_fetch:
  "phase_rank (phase s) \<le> 2 \<Longrightarrow> phase_rank (phase (app_step s (FetchSettled r))) \<le> 1"
  by (cases "phase s") (auto simp: init_after_load_def split: prod.splits option.splits)

lemma phase_rank_plot:
  "phase_rank (phase s) \<le> 1 \<Longrightarrow> phase_rank (phase (app_step s (PlotSettled b))) = 0"
  by (cases "phase s") (auto simp: render_chart_settled_def Let_def)

lemma phase_rank_0: "phase_rank ph = 0 \<longleftrightarrow> ph = Settled"
  by (cases ph) simp_all

lemma resize_burst_run:
  assumes "resize_listeners s = 1" and "resize_burst ts"
    and "case pending (resize_timer s) of None \<Rightarrow> True | Some (d, u) \<Rightarrow> hd ts < d"
  shows "app_run s (map WindowResize ts) =
           s\<lparr>resize_timer := \<lparr>pending = Some (last ts + resize_wait, ())\<rparr>\<rparr>"
  using assms
proof (induction ts arbitrary: s rule: resize_burst.induct)
  case 1
  then show ?case by simp
next
  case (2 t)
  then show ?case
    by (auto simp: run_resize_timer_def advance_clock_def debounced_call_def Let_def
        split: option.splits prod.splits)
next
  case (3 t t' ts)
  let ?s1 = "s\<lparr>resize_timer := \<lparr>pending = Some (t + resize_wait, ())\<rparr>\<rparr>"
  have step: "app_step s (WindowResize t) = ?s1"
    using "3.prems" by (auto simp: run_resize_timer_def advance_clock_def debounced_call_def Let_def
        split: option.splits prod.splits)
  have "app_run ?s1 (map WindowResize (t' # ts)) =
          ?s1\<lparr>resize_timer := \<lparr>pending = Some (last (t' # ts) + resize_wait, ())\<rparr>\<rparr>"
    using "3.prems" by (intro "3.IH") simp_all
  with step show ?case by simp
qed

lemma sample_chart_fields:
  "chart_instance (pg (app_run (initial_app True) (sample_start @ [PlotSettled True]))) \<and>
   pending (resize_timer (app_run (initial_app True) (sample_start @ [PlotSettled True]))) = None \<and>
   plotly_resizes (app_run (initial_app True) (sample_start @ [PlotSettled True])) = 0"
  using sample_start_state
  by (simp add: app_run_append render_chart_settled_def initial_debouncer_def Let_def)

subsection \<open>Properties of the page\<close>

text \<open>
  C19. In every state the page can reach, a chart is shown only after a
  successful render of a validated document: \<open>AppState.chartInstance\<close> is
  set, \<open>AppState.data\<close> holds a document that passes validation, and the
  chart is the traces and layout built from that document.
\<close>

theorem chart_shown_only_for_valid_data:
  assumes "reachable s" and "region (pg s) = Some (RChart c)"
  shows "chart_instance (pg s) \<and>
         (\<exists>d. app_data (pg s) = Some d \<and> validate_data d = Inr d \<and> c = chart_of d)"
  using reachable_app_inv [OF assms(1)] assms(2) by (auto simp: app_inv_def)

lemma chart_shown_only_for_valid_data_witness:
  "chart_instance (pg (app_run (initial_app True) (sample_start @ [PlotSettled True])))"
  using chart_shown_only_for_valid_data [OF reachable_initial_run] sample_chart_state by blast

text \<open>
  C20. Rendering is attempted only after loading completed: while
  \<open>Plotly.newPlot\<close> is pending, \<open>AppState.data\<close> holds the validated
  document being drawn and no chart instance exists yet (no speculative or
  partial rendering, spec section 5).
\<close>

theorem render_only_after_load:
  assumes "reachable s" and "phase s = AwaitPlot d"
  shows "app_data (pg s) = Some d \<and> validate_data d = Inr d \<and> \<not> chart_instance (pg s)"
  using reachable_app_inv [OF assms(1)] assms(2) by (auto simp: app_inv_def)

lemma render_only_after_load_witness:
  "validate_data sample_doc = Inr sample_doc"
  using render_only_after_load [OF reachable_initial_run] sample_start_state by blast

text \<open>
  C21. The resize handling is safe: at most one \<open>resize\<close> listener is ever
  registered, a debounce timer is pending only when that listener exists,
  and \<open>Plotly.Plots.resize\<close> has been called only if a chart instance exists.
\<close>

theorem resize_handler_safe:
  "reachable s \<Longrightarrow> resize_listeners s \<le> 1 \<and>
     (pending (resize_timer s) \<noteq> None \<longrightarrow> resize_listeners s = 1) \<and>
     (0 < plotly_resizes s \<longrightarrow> chart_instance (pg s))"
  by (drule reachable_app_inv) (auto simp: app_inv_def)

lemma resize_handler_safe_witness:
  "chart_instance (pg (app_run (initial_app True)
     (sample_start @ [PlotSettled True, WindowResize 1000, ClockTick 1300])))"
proof -
  let ?s = "app_run (initial_app True) (sample_start @ [PlotSettled True, WindowResize 1000, ClockTick 1300])"
  have "plotly_resizes ?s = 1"
    using sample_start_state
    by (simp add: app_run_append render_chart_settled_def run_resize_timer_def
        advance_clock_def debounced_call_def resize_wait_def initial_app_def
        initial_debouncer_def Let_def)
  with resize_handler_safe [OF reachable_initial_run] show ?thesis by simp
qed

text \<open>
  C22. A failed load does not end with its own message: the loader logs the
  specific error and shows it, but \<open>initializeApp\<close> then throws and its
  catch overwrites the region with \<open>Application failed to initialize\<close>.
\<close>

theorem load_failure_message_replaced:
  assumes "phase s = AwaitFetch" and "region (pg s) \<noteq> None" and "fetch_topic_data r = Inl e"
  shows "region (pg (app_step s (FetchSettled r))) =
           Some (RError ''Application failed to initialize'') \<and>
         LogError ''loadTopicData'' (error_message e) \<in> set (console (pg (app_step s (FetchSettled r)))) \<and>
         phase (app_step s (FetchSettled r)) = Settled"
  using assms
  by (auto simp: init_after_load_def load_settled_def page_ops_simps)

lemma load_failure_message_replaced_witness:
  "region (pg (app_step (app_step (initial_app True) DomContentLoaded)
      (FetchSettled (Response 404 ''Not Found'' (BodyJson JNull))))) =
   Some (RError ''Application failed to initialize'')"
proof -
  let ?s = "app_step (initial_app True) DomContentLoaded"
  have ph: "phase ?s = AwaitFetch" and rg: "region (pg ?s) \<noteq> None"
    by (simp_all add: initial_app_def initial_page_def page_ops_simps)
  have f: "fetch_topic_data (Response 404 ''Not Found'' (BodyJson JNull)) =
             Inl (HttpError 404 ''Not Found'')"
    by (simp add: fetch_topic_data_def response_ok_def)
  from load_failure_message_replaced [OF ph rg f] show ?thesis by simp
qed

text \<open>
  C23. No retry and no rebuild: once the start-up sequence has settled, no
  sequence of events changes what the region shows, and the page never
  leaves the settled phase; in particular a \<open>resize\<close> never rebuilds the
  series (spec sections 2 and 3 describe a rebuild on resize).
\<close>

theorem settled_region_final:
  assumes "phase s = Settled"
  shows "region (pg (app_run s es)) = region (pg s) \<and> phase (app_run s es) = Settled"
  using assms
proof (induction es arbitrary: s)
  case (Cons e es)
  from app_step_settled [OF Cons.prems] Cons.IH [of "app_step s e"] show ?case by simp
qed simp

lemma settled_region_final_witness:
  "region (pg (app_run (app_run (initial_app True) (sample_start @ [PlotSettled True]))
      [WindowResize 10, ClockTick 300, DomContentLoaded, WindowError ''x''])) =
   Some (RChart (chart_of sample_doc))"
proof -
  let ?s = "app_run (initial_app True) (sample_start @ [PlotSettled True])"
  from sample_chart_state have "phase ?s = Settled" by (rule conjunct2)
  from settled_region_final [OF this]
  have "region (pg (app_run ?s [WindowResize 10, ClockTick 300, DomContentLoaded, WindowError ''x''])) =
          region (pg ?s)" by (rule conjunct1)
  with sample_chart_state show ?thesis by (simp only:)
qed


text \<open>
  C33. A failed render is still reported as a successful start: when
  \<open>Plotly.newPlot\<close> rejects, \<open>renderChart\<close> shows its error panel and
  swallows the error, so \<open>initializeApp\<close> goes on to log \<open>Application
  initialized successfully\<close>; no chart instance and no resize listener exist.
\<close>

theorem render_failure_logs_success:
  assumes "reachable s" and "phase s = AwaitPlot d" and "region (pg s) \<noteq> None"
  shows "region (pg (app_step s (PlotSettled False))) =
           Some (RError ''Failed to render chart visualization'') \<and>
         LogInfo ''Application initialized successfully'' \<in> set (console (pg (app_step s (PlotSettled False)))) \<and>
         \<not> chart_instance (pg (app_step s (PlotSettled False))) \<and>
         resize_listeners (app_step s (PlotSettled False)) = resize_listeners s"
  using reachable_app_inv [OF assms(1)] assms(2,3)
  by (auto simp: app_inv_def render_chart_settled_def page_ops_simps Let_def)

lemma render_failure_logs_success_witness:
  "region (pg (app_step (app_run (initial_app True) sample_start) (PlotSettled False))) =
     Some (RError ''Failed to render chart visualization'')"
  using render_failure_logs_success [OF reachable_initial_run, of True sample_start sample_doc]
    sample_start_state by simp


text \<open>
  C34. The start-up sequence terminates: on every run from a fresh page in
  which the page loads, then the fetch of \<open>data.json\<close> settles, then
  \<open>Plotly.newPlot\<close> settles, with any other events before, between and
  after them, the page ends in the settled phase, whatever the outcomes.
  Each awaited outcome lowers the variant \<open>phase_rank\<close> and no event raises
  it.
\<close>

theorem startup_terminates:
  "phase (app_run (initial_app m)
     (es1 @ DomContentLoaded # es2 @ FetchSettled r # es3 @ PlotSettled b # es4)) = Settled"
proof -
  let ?s1 = "app_step (app_run (initial_app m) es1) DomContentLoaded"
  let ?s2 = "app_step (app_run ?s1 es2) (FetchSettled r)"
  let ?s3 = "app_step (app_run ?s2 es3) (PlotSettled b)"
  have "phase_rank (phase (app_run ?s1 es2)) \<le> 2"
    using phase_rank_run [of ?s1 es2] phase_rank_load [of "app_run (initial_app m) es1"] by simp
  then have "phase_rank (phase (app_run ?s2 es3)) \<le> 1"
    using phase_rank_run [of ?s2 es3] phase_rank_fetch by (meson order_trans)
  then have "phase_rank (phase ?s3) = 0" by (rule phase_rank_plot)
  then have "phase_rank (phase (app_run ?s3 es4)) = 0"
    using phase_rank_run [of ?s3 es4] by simp
  then show ?thesis by (simp add: app_run_append phase_rank_0)
qed

lemma startup_terminates_witness:
  "phase (app_run (initial_app True)
     ([WindowResize 5] @ DomContentLoaded # [WindowError ''x''] @
      FetchSettled (NetworkError ''Failed to fetch'') # [ClockTick 300] @ PlotSettled True # [])) = Settled"
  by (rule startup_terminates)


text \<open>
  C16. Debounced resizing, composed with the page: on a page showing a chart
  with no resize timer pending, a burst of \<open>resize\<close> events (each less
  than 250 ms after the one before) followed by the clock reaching 250 ms
  after the last of them calls \<open>Plotly.Plots.resize\<close> exactly once and
  leaves the page itself unchanged.
\<close>

theorem resize_burst_single_resize:
  assumes "reachable s" and "chart_instance (pg s)" and "pending (resize_timer s) = None"
    and "resize_burst ts" and "last ts + resize_wait \<le> t'"
  shows "plotly_resizes (app_run s (map WindowResize ts @ [ClockTick t'])) = Suc (plotly_resizes s) \<and>
         pg (app_run s (map WindowResize ts @ [ClockTick t'])) = pg s \<and>
         pending (resize_timer (app_run s (map WindowResize ts @ [ClockTick t']))) = None"
proof -
  from reachable_app_inv [OF assms(1)] assms(2) have "resize_listeners s = 1"
    by (simp add: app_inv_def)
  with assms(3,4) have "app_run s (map WindowResize ts) =
      s\<lparr>resize_timer := \<lparr>pending = Some (last ts + resize_wait, ())\<rparr>\<rparr>"
    by (intro resize_burst_run) simp_all
  with assms(2,5) show ?thesis
    by (simp add: app_run_append run_resize_timer_def advance_clock_def)
qed

lemma resize_burst_single_resize_witness:
  "plotly_resizes (app_run (app_run (initial_app True) (sample_start @ [PlotSettled True]))
     (map WindowResize [1000, 1100, 1200] @ [ClockTick 1500])) = 1"
  using resize_burst_single_resize [OF reachable_initial_run, of True "sample_start @ [PlotSettled True]"
      "[1000, 1100, 1200]" 1500]
    sample_chart_fields
  by (simp add: resize_wait_def)

end
