(* ===== verification/Deploy.thy ===== *)
theory Deploy
  imports Prelude "HOL-Library.Sublist"
begin

text \<open>
  The deployment script src/deploy.sh, a \<open>bash\<close> script under \<open>set -e\<close>:
  it checks for \<open>git\<close> and \<open>index.html\<close>, initialises the repository if
  needed, stages and commits everything, asks for a one-key confirmation and
  only then points \<open>origin\<close> at the GitHub repository and pushes \<open>main\<close>.
  The shell's state is the text printed and the repository; the world the
  script runs in (whether \<open>git\<close> exists, the files present, the exit
  statuses of the git commands whose failure ends the script, whether
  \<open>git commit\<close> can succeed, and standard input) is the record
  \<open>deploy_env\<close>. \<open>set -e\<close> is the sequential composition \<open>sh_seq\<close>: a command
  that fails outside a condition or an \<open>||\<close> list ends the script with its
  status. Printed lines are kept without their leading emoji.
\<close>

section \<open>Definitions\<close>

record deploy_env =
  git_installed :: bool
  index_html :: bool
  init_status :: nat        \<comment> \<open>exit status of \<open>git init\<close>\<close>
  add_status :: nat         \<comment> \<open>exit status of \<open>git add .\<close>\<close>
  commit_ok :: bool         \<comment> \<open>\<open>git commit\<close> can record staged changes (identity set, hooks pass)\<close>
  remote_add_status :: nat  \<comment> \<open>exit status of \<open>git remote add origin ...\<close>\<close>
  branch_status :: nat      \<comment> \<open>exit status of \<open>git branch -M main\<close>\<close>
  push_status :: nat        \<comment> \<open>exit status of \<open>git push -u origin main\<close>\<close>
  stdin :: string

record repo =
  git_dir :: bool               \<comment> \<open>\<open>.git\<close> exists\<close>
  work_changes :: bool          \<comment> \<open>the tree differs from the last commit\<close>
  commits :: nat
  origin :: "string option"
  branch :: string
  remote_main :: "nat option"   \<comment> \<open>the commit \<open>main\<close> of \<open>origin\<close> holds\<close>

text \<open>The git commands the script runs, with their arguments.\<close>

datatype git_cmd =
    GitInit
  | GitAdd
  | GitCommit
  | GitRemoteRemove string
  | GitRemoteAdd string string
  | GitBranchMove string
  | GitPush string string

record shell =
  sh_out :: "string list"
  sh_repo :: repo
  sh_reply :: string            \<comment> \<open>the variable \<open>REPLY\<close>\<close>
  sh_git :: "git_cmd list"      \<comment> \<open>the git commands run so far, in order\<close>

text \<open>A command either lets the script go on or ends it with an exit status.\<close>

type_synonym sh_result = "(nat \<times> shell) + shell"

definition echo :: "string list \<Rightarrow> shell \<Rightarrow> shell" where
  "echo ls s = s\<lparr>sh_out := sh_out s @ ls\<rparr>"

text \<open>Running a git command, whatever its outcome.\<close>

definition run_git :: "git_cmd \<Rightarrow> shell \<Rightarrow> shell" where
  "run_git c s = s\<lparr>sh_git := sh_git s @ [c]\<rparr>"

definition sh_exit :: "nat \<Rightarrow> shell \<Rightarrow> sh_result" where
  "sh_exit code s = Inl (code, s)"

definition sh_seq :: "sh_result \<Rightarrow> (shell \<Rightarrow> sh_result) \<Rightarrow> sh_result" where
  "sh_seq r f = (case r of Inl ex \<Rightarrow> Inl ex | Inr s \<Rightarrow> f s)"

definition repo_url :: string where
  "repo_url = ''https://github.com/apma4903/topic-evolution.git''"

text \<open>Lines 8--30: the banner, the two precondition checks and the checklist.\<close>

definition deploy_checks :: "deploy_env \<Rightarrow> shell \<Rightarrow> sh_result" where
  "deploy_checks env s =
     (let s1 = echo [''Academic Topic Evolution - GitHub Deployment'',
                     ''=================================================='', ''''] s in
      if \<not> git_installed env then
        sh_exit 1 (echo [''Error: Git is not installed. Please install Git first.''] s1)
      else if \<not> index_html env then
        sh_exit 1 (echo [''Error: index.html not found. Are you in the correct directory?''] s1)
      else
        Inr (echo [''Pre-deployment checklist:'', ''  HTML structure validated'',
                   ''  CSS responsive design implemented'', ''  JavaScript error handling added'',
                   ''  Data validation completed'', ''  All references to external tools removed'',
                   ''''] s1))"

text \<open>
  Lines 33--39: \<open>git init\<close> in a directory without \<open>.git\<close>; every file is
  then new. A failure ends the script (\<open>set -e\<close>).
\<close>

definition git_init_step :: "deploy_env \<Rightarrow> shell \<Rightarrow> sh_result" where
  "git_init_step env s =
     (let s1 = echo [''Initializing Git repository...''] s; r = sh_repo s1 in
      if \<not> git_dir r then
        (if init_status env \<noteq> 0 then sh_exit (init_status env) (run_git GitInit s1)
         else
           Inr (echo [''  Git repository initialized''] (run_git GitInit
                 (s1\<lparr>sh_repo := r\<lparr>git_dir := True, work_changes := True, commits := 0,
                                     origin := None, branch := ''master'', remote_main := None\<rparr>\<rparr>))))
      else Inr (echo [''  Git repository already exists''] s1))"

text \<open>Lines 42--44: \<open>git add .\<close>; a failure ends the script (\<open>set -e\<close>).\<close>

definition git_add_step :: "deploy_env \<Rightarrow> shell \<Rightarrow> sh_result" where
  "git_add_step env s =
     (let s1 = run_git GitAdd (echo [''Adding files to Git...''] s) in
      if add_status env \<noteq> 0 then sh_exit (add_status env) s1
      else Inr (echo [''  All files staged''] s1))"

text \<open>
  Lines 47--63: \<open>git commit ... 2>/dev/null || echo\<close>. After a successful
  \<open>git add .\<close> every change is staged. The commit records them when there
  are any and git can commit (an identity is configured, no hook rejects);
  otherwise it fails, and the \<open>||\<close> list absorbs the failure and prints
  \<open>No changes to commit\<close>, whatever the cause.
\<close>

definition git_commit_step :: "deploy_env \<Rightarrow> shell \<Rightarrow> sh_result" where
  "git_commit_step env s =
     (let s1 = run_git GitCommit (echo [''Creating commit...''] s); r = sh_repo s1 in
      if work_changes r \<and> commit_ok env then
        Inr (s1\<lparr>sh_repo := r\<lparr>work_changes := False, commits := Suc (commits r)\<rparr>\<rparr>)
      else Inr (echo [''  No changes to commit''] s1))"

text \<open>
  Lines 66--72: the remote notice and \<open>read -p ... -n 1 -r\<close>, which reads
  one character into \<open>REPLY\<close> (nothing for a bare Enter) and fails at the end
  of input, which under \<open>set -e\<close> ends the script with status 1.
\<close>

definition read_one :: "string \<Rightarrow> string option" where
  "read_one inp = (case inp of [] \<Rightarrow> None | c # _ \<Rightarrow> Some (if c = CHR 0x0A then [] else [c]))"

definition read_step :: "deploy_env \<Rightarrow> shell \<Rightarrow> sh_result" where
  "read_step env s =
     (let s1 = echo ['''', ''GitHub Repository Setup:'',
                     ''  Repository already exists at: https://github.com/apma4903/topic-evolution'',
                     ''''] s in
      case read_one (stdin env) of
        None \<Rightarrow> sh_exit 1 s1
      | Some r \<Rightarrow> Inr (echo [''''] (s1\<lparr>sh_reply := r\<rparr>)))"

text \<open>The test of \<open>REPLY\<close> against the pattern \<open>^[Yy]$\<close> on line 74.\<close>

definition reply_confirms :: "string \<Rightarrow> bool" where
  "reply_confirms r \<longleftrightarrow> r = ''y'' \<or> r = ''Y''"

text \<open>
  Lines 75--112: \<open>git remote remove origin || true\<close> (whose failure is
  absorbed), then \<open>git remote add\<close>, \<open>git branch -M main\<close> and \<open>git push
  -u origin main\<close>, each of which ends the script when it fails; then the
  instructions for enabling GitHub Pages.
\<close>

definition push_step :: "deploy_env \<Rightarrow> shell \<Rightarrow> sh_result" where
  "push_step env s =
     (let s1 = run_git (GitRemoteRemove ''origin'') (echo [''Setting up remote repository...''] s);
          s1' = s1\<lparr>sh_repo := (sh_repo s1)\<lparr>origin := None\<rparr>\<rparr>;
          s2 = run_git (GitRemoteAdd ''origin'' repo_url) s1'
      in if remote_add_status env \<noteq> 0 then sh_exit (remote_add_status env) s2 else
      let s2' = s2\<lparr>sh_repo := (sh_repo s2)\<lparr>origin := Some repo_url\<rparr>\<rparr>;
          s3 = run_git (GitBranchMove ''main'')
                 (echo [''  Remote origin added'', ''Pushing to GitHub...''] s2')
      in if branch_status env \<noteq> 0 then sh_exit (branch_status env) s3 else
      let s3' = s3\<lparr>sh_repo := (sh_repo s3)\<lparr>branch := ''main''\<rparr>\<rparr>;
          s4 = run_git (GitPush ''origin'' ''main'') s3'
      in if push_status env \<noteq> 0 then sh_exit (push_status env) s4
         else
           Inr (echo [''  Code pushed to GitHub'', '''', ''Enabling GitHub Pages...'',
                      ''  1. Go to https://github.com/apma4903/topic-evolution'',
                      ''  2. Click 'Settings' tab'', ''  3. Scroll to 'Pages' section'',
                      ''  4. Under 'Source', select 'Deploy from a branch'' @ [CHR 0x27],
                      ''  5. Choose 'main' branch and '/ (root)' folder'', ''  6. Click 'Save'' @ [CHR 0x27],
                      '''', ''Deployment Complete!'', '''',
                      ''Your visualization will be available at:'',
                      ''  https://apma4903.github.io/topic-evolution'', '''',
                      ''Note: GitHub Pages may take 5-10 minutes to build and deploy.'', '''',
                      ''Project Summary:'', ''  248 academic topics analyzed (2013-2024)'',
                      ''  10 research categories identified'', ''  100% classification success rate'',
                      ''  Professional visualization with modern UI'',
                      ''  Fully responsive and accessible design'', '''']
                 (s4\<lparr>sh_repo := (sh_repo s4)\<lparr>remote_main := Some (commits (sh_repo s4))\<rparr>\<rparr>)))"

text \<open>Lines 74 and 114--117: the branch on the reply.\<close>

definition cancel_msg :: string where
  "cancel_msg = ''Deployment cancelled. Run this script again when ready to deploy.''"

definition confirm_step :: "deploy_env \<Rightarrow> shell \<Rightarrow> sh_result" where
  "confirm_step env s =
     (if reply_confirms (sh_reply s) then push_step env s
      else sh_exit 1 (echo [cancel_msg] s))"

text \<open>
  The whole script: the preparation (lines 8--63) runs without asking, the
  rest (lines 66--117) after the prompt. Reaching the end is exit status 0.
\<close>

definition deploy_prepare :: "deploy_env \<Rightarrow> repo \<Rightarrow> sh_result" where
  "deploy_prepare env r =
     sh_seq (deploy_checks env \<lparr>sh_out = [], sh_repo = r, sh_reply = [], sh_git = []\<rparr>) (\<lambda>s.
     sh_seq (git_init_step env s) (\<lambda>s.
     sh_seq (git_add_step env s) (git_commit_step env)))"

definition deploy_finish :: "deploy_env \<Rightarrow> shell \<Rightarrow> sh_result" where
  "deploy_finish env s = sh_seq (read_step env s) (confirm_step env)"

definition sh_status :: "sh_result \<Rightarrow> nat \<times> shell" where
  "sh_status r = (case r of Inl ex \<Rightarrow> ex | Inr s \<Rightarrow> (0, s))"

definition deploy :: "deploy_env \<Rightarrow> repo \<Rightarrow> nat \<times> shell" where
  "deploy env r = sh_status (sh_seq (deploy_prepare env r) (deploy_finish env))"

text \<open>
  A repository as the script can find it: without \<open>.git\<close> there are no
  commits and no remote, and \<open>origin/main\<close> never names a commit the
  repository does not have.
\<close>

definition repo_wf :: "repo \<Rightarrow> bool" where
  "repo_wf r \<longleftrightarrow>
     (\<not> git_dir r \<longrightarrow> commits r = 0 \<and> origin r = None \<and> remote_main r = None) \<and>
     (case remote_main r of None \<Rightarrow> True | Some n \<Rightarrow> n \<le> commits r)"

text \<open>A key that confirms: the first character typed is \<open>y\<close> or \<open>Y\<close>.\<close>

definition confirmed :: "deploy_env \<Rightarrow> bool" where
  "confirmed env \<longleftrightarrow> stdin env \<noteq> [] \<and> hd (stdin env) \<in> {CHR ''y'', CHR ''Y''}"

text \<open>
  The repository once the preparation has run: initialised, and the changes
  committed when there are any and the commit can succeed.
\<close>

definition prepared_repo :: "deploy_env \<Rightarrow> repo \<Rightarrow> repo" where
  "prepared_repo env r =
     (let r1 = (if git_dir r then r
                else r\<lparr>git_dir := True, work_changes := True, commits := 0, origin := None,
                        branch := ''master'', remote_main := None\<rparr>)
      in if work_changes r1 \<and> commit_ok env
         then r1\<lparr>work_changes := False, commits := Suc (commits r1)\<rparr> else r1)"

text \<open>The preparation runs through to the prompt.\<close>

definition prepare_ok :: "deploy_env \<Rightarrow> repo \<Rightarrow> bool" where
  "prepare_ok env r \<longleftrightarrow>
     git_installed env \<and> index_html env \<and> (git_dir r \<or> init_status env = 0) \<and> add_status env = 0"

text \<open>The git commands of the script in its order: before the prompt, and after it.\<close>

definition prepare_commands :: "repo \<Rightarrow> git_cmd list" where
  "prepare_commands r = (if git_dir r then [] else [GitInit]) @ [GitAdd, GitCommit]"

definition remote_commands :: "git_cmd list" where
  "remote_commands =
     [GitRemoteRemove ''origin'', GitRemoteAdd ''origin'' repo_url, GitBranchMove ''main'',
      GitPush ''origin'' ''main'']"

text \<open>
  What the deployment notes say the script does (src/unnamed/part_002 lines
  14--18): initialise the repository, add and commit all files, push to
  GitHub, and give the GitHub Pages setup instructions.
\<close>

datatype doc_step = DocInitRepository | DocAddCommit | DocPush | DocPagesInstructions

definition documented_steps :: "doc_step list" where
  "documented_steps = [DocInitRepository, DocAddCommit, DocPush, DocPagesInstructions]"

text \<open>
  The documented steps a run has performed, read off the git commands it ran,
  the repository it left and the instructions it printed (line 91 opens
  them): \<open>git add\<close> directly followed by \<open>git commit\<close> counts as adding and
  committing all files when no change is left uncommitted.
\<close>

fun doc_of_cmds :: "bool \<Rightarrow> git_cmd list \<Rightarrow> doc_step list" where
  "doc_of_cmds clean [] = []"
| "doc_of_cmds clean (GitInit # cs) = DocInitRepository # doc_of_cmds clean cs"
| "doc_of_cmds clean (GitAdd # GitCommit # cs) =
     (if clean then [DocAddCommit] else []) @ doc_of_cmds clean cs"
| "doc_of_cmds clean (GitPush rm br # cs) = DocPush # doc_of_cmds clean cs"
| "doc_of_cmds clean (c # cs) = doc_of_cmds clean cs"

definition doc_view :: "shell \<Rightarrow> doc_step list" where
  "doc_view s =
     doc_of_cmds (\<not> work_changes (sh_repo s)) (sh_git s) @
     (if ''Enabling GitHub Pages...'' \<in> set (sh_out s) then [DocPagesInstructions] else [])"

definition sample_env :: deploy_env where
  "sample_env = \<lparr>git_installed = True, index_html = True, init_status = 0, add_status = 0,
     commit_ok = True, remote_add_status = 0, branch_status = 0, push_status = 0, stdin = ''y''\<rparr>"

definition fresh_repo :: repo where
  "fresh_repo = \<lparr>git_dir = False, work_changes = True, commits = 0, origin = None,
     branch = ''master'', remote_main = None\<rparr>"

section \<open>Lemmas\<close>

lemma sh_seq_simps [simp]:
  "sh_seq (Inl ex) f = Inl ex"
  "sh_seq (Inr s) f = f s"
  by (simp_all add: sh_seq_def)

lemma echo_repo [simp]: "sh_repo (echo ls s) = sh_repo s"
  and echo_reply [simp]: "sh_reply (echo ls s) = sh_reply s"
  and echo_out [simp]: "sh_out (echo ls s) = sh_out s @ ls"
  and echo_git [simp]: "sh_git (echo ls s) = sh_git s"
  by (simp_all add: echo_def)

lemma run_git_repo [simp]: "sh_repo (run_git c s) = sh_repo s"
  and run_git_reply [simp]: "sh_reply (run_git c s) = sh_reply s"
  and run_git_out [simp]: "sh_out (run_git c s) = sh_out s"
  and run_git_git [simp]: "sh_git (run_git c s) = sh_git s @ [c]"
  by (simp_all add: run_git_def)

lemma read_one_confirms:
  "read_one inp = Some r \<Longrightarrow> reply_confirms r \<longleftrightarrow> inp \<noteq> [] \<and> hd inp \<in> {CHR ''y'', CHR ''Y''}"
  by (auto simp: read_one_def reply_confirms_def split: list.splits if_splits)

lemma read_one_None [simp]: "read_one inp = None \<longleftrightarrow> inp = []"
  by (simp add: read_one_def split: list.splits)

lemma read_one_simps [simp]:
  "read_one [] = None"
  "read_one (c # cs) = Some (if c = CHR 0x0A then [] else [c])"
  by (simp_all add: read_one_def)

lemma sh_status_simps [simp]:
  "sh_status (Inl ex) = ex"
  "sh_status (Inr s) = (0, s)"
  by (simp_all add: sh_status_def)


lemmas prepare_defs = deploy_prepare_def deploy_checks_def git_init_step_def git_add_step_def
  git_commit_step_def sh_exit_def
lemmas finish_defs = deploy_finish_def read_step_def confirm_step_def push_step_def sh_exit_def

lemma deploy_prepare_Inr_iff: "(\<exists>s. deploy_prepare env r = Inr s) \<longleftrightarrow> prepare_ok env r"
  by (auto simp: prepare_defs prepare_ok_def Let_def)

lemma deploy_prepare_InrD:
  "deploy_prepare env r = Inr s \<Longrightarrow>
     sh_repo s = prepared_repo env r \<and> sh_reply s = [] \<and> sh_git s = prepare_commands r"
  by (auto simp: prepare_defs prepared_repo_def prepare_commands_def Let_def split: if_splits)

lemma deploy_prepare_Inl:
  assumes "deploy_prepare env r = Inl (c, s)"
  shows "c \<noteq> 0 \<and> \<not> prepare_ok env r \<and>
         (repo_wf r \<longrightarrow> repo_wf (sh_repo s) \<and> origin (sh_repo s) = origin r \<and>
            remote_main (sh_repo s) = remote_main r)"
  using assms
  by (auto simp: prepare_defs prepare_ok_def repo_wf_def Let_def split: if_splits option.splits)

lemma prepare_okD:
  "prepare_ok env r \<Longrightarrow> git_installed env \<and> index_html env \<and> add_status env = 0"
  by (simp add: prepare_ok_def)

lemma prepared_repo_wf:
  "repo_wf r \<Longrightarrow> repo_wf (prepared_repo env r) \<and> origin (prepared_repo env r) = origin r \<and>
     remote_main (prepared_repo env r) = remote_main r"
  by (auto simp: prepared_repo_def repo_wf_def Let_def split: option.splits)

lemma prepared_repo_fields [simp]:
  "git_dir (prepared_repo env r)"
  "work_changes (prepared_repo env r) \<longleftrightarrow> \<not> commit_ok env \<and> (work_changes r \<or> \<not> git_dir r)"
  by (auto simp: prepared_repo_def Let_def)

lemma prepared_repo_id:
  "git_dir r \<Longrightarrow> (work_changes r \<longrightarrow> \<not> commit_ok env) \<Longrightarrow> prepared_repo env r = r"
  by (simp add: prepared_repo_def)

lemma deploy_finish_status:
  "fst (sh_status (deploy_finish env s)) = 0 \<longleftrightarrow>
     confirmed env \<and> remote_add_status env = 0 \<and> branch_status env = 0 \<and> push_status env = 0"
  by (cases "stdin env")
     (auto simp: finish_defs confirmed_def reply_confirms_def Let_def)

lemma deploy_finish_declined:
  "\<not> confirmed env \<Longrightarrow>
     fst (sh_status (deploy_finish env s)) = 1 \<and>
     sh_repo (snd (sh_status (deploy_finish env s))) = sh_repo s \<and>
     sh_git (snd (sh_status (deploy_finish env s))) = sh_git s"
  by (cases "stdin env")
     (auto simp: finish_defs confirmed_def reply_confirms_def Let_def)

lemma deploy_finish_confirmed:
  "confirmed env \<Longrightarrow> remote_add_status env = 0 \<Longrightarrow> branch_status env = 0 \<Longrightarrow>
     sh_repo (snd (sh_status (deploy_finish env s))) =
       (sh_repo s)\<lparr>origin := Some repo_url, branch := ''main'',
         remote_main := (if push_status env = 0 then Some (commits (sh_repo s)) else remote_main (sh_repo s))\<rparr>"
  by (cases "stdin env")
     (auto simp: finish_defs confirmed_def reply_confirms_def Let_def)

lemma deploy_finish_eof:
  "stdin env = [] \<Longrightarrow> deploy_finish env s =
     Inl (1, echo ['''', ''GitHub Repository Setup:'',
                   ''  Repository already exists at: https://github.com/apma4903/topic-evolution'', ''''] s)"
  by (simp add: finish_defs)

lemma deploy_split:
  "deploy env r = (case deploy_prepare env r of Inl ex \<Rightarrow> ex | Inr s \<Rightarrow> sh_status (deploy_finish env s))"
  by (simp add: deploy_def split: sum.split)

lemma deploy_prepare_out:
  "deploy_prepare env r = Inr s \<Longrightarrow> cancel_msg \<notin> set (sh_out s)"
  by (auto simp: prepare_defs cancel_msg_def Let_def split: if_splits)

lemma repo_wf_fresh: "repo_wf fresh_repo"
  by (simp add: repo_wf_def fresh_repo_def)

lemma sample_deploy:
  "fst (deploy sample_env fresh_repo) = 0 \<and>
   origin (sh_repo (snd (deploy sample_env fresh_repo))) = Some repo_url"
  by (simp add: deploy_split prepare_defs finish_defs sample_env_def fresh_repo_def Let_def reply_confirms_def)

lemma deploy_prepare_git:
  "deploy_prepare env r = Inl (c, s) \<Longrightarrow> prefix (sh_git s) (prepare_commands r)"
  by (auto simp: prepare_defs prepare_commands_def Let_def split: if_splits)

lemma deploy_finish_git:
  "sh_git (snd (sh_status (deploy_finish env s))) =
     sh_git s @ (if \<not> confirmed env then []
                 else take (if remote_add_status env \<noteq> 0 then 2 else if branch_status env \<noteq> 0 then 3 else 4)
                        remote_commands)"
  by (cases "stdin env")
     (auto simp: finish_defs confirmed_def reply_confirms_def remote_commands_def Let_def)

lemma deploy_finish_pages:
  "confirmed env \<Longrightarrow> remote_add_status env = 0 \<Longrightarrow> branch_status env = 0 \<Longrightarrow> push_status env = 0 \<Longrightarrow>
     ''Enabling GitHub Pages...'' \<in> set (sh_out (snd (sh_status (deploy_finish env s))))"
  by (cases "stdin env")
     (auto simp: finish_defs confirmed_def reply_confirms_def Let_def)

lemma remote_not_prepare: "GitRemoteRemove ''origin'' \<notin> set (prepare_commands r)"
  by (simp add: prepare_commands_def)

lemma deploy_success_prepared:
  assumes "fst (deploy env r) = 0"
  obtains s where "deploy_prepare env r = Inr s" and "prepare_ok env r"
    and "confirmed env" and "remote_add_status env = 0" and "branch_status env = 0"
    and "push_status env = 0"
proof (cases "deploy_prepare env r")
  case (Inl ex)
  obtain c s where ex: "ex = (c, s)" by fastforce
  from deploy_prepare_Inl [of env r c s] Inl ex assms show ?thesis by (simp add: deploy_split)
next
  case (Inr s)
  with assms show ?thesis
    using that deploy_prepare_Inr_iff by (auto simp: deploy_split deploy_finish_status)
qed

lemma deploy_success_repo:
  "fst (deploy env r) = 0 \<Longrightarrow>
     sh_repo (snd (deploy env r)) =
       (prepared_repo env r)\<lparr>origin := Some repo_url, branch := ''main'',
                              remote_main := Some (commits (prepared_repo env r))\<rparr>"
  by (erule deploy_success_prepared)
     (simp add: deploy_split deploy_finish_confirmed deploy_prepare_InrD)

subsection \<open>Properties of the deployment script\<close>

text \<open>
  C25. Nothing is published without confirmation: if a run changed the
  remote \<open>origin\<close> or what \<open>origin/main\<close> holds, then \<open>git\<close> was installed,
  \<open>index.html\<close> was present, \<open>git add\<close> succeeded and the key typed at the
  prompt was \<open>y\<close> or \<open>Y\<close>.
\<close>

theorem deploy_push_requires_confirmation:
  assumes "repo_wf r"
    and "origin (sh_repo (snd (deploy env r))) \<noteq> origin r \<or>
         remote_main (sh_repo (snd (deploy env r))) \<noteq> remote_main r"
  shows "git_installed env \<and> index_html env \<and> add_status env = 0 \<and> confirmed env"
proof (cases "deploy_prepare env r")
  case (Inl ex)
  obtain c s where ex: "ex = (c, s)" by fastforce
  from deploy_prepare_Inl [of env r c s] Inl ex assms show ?thesis by (simp add: deploy_split)
next
  case (Inr s)
  then have conds: "git_installed env \<and> index_html env \<and> add_status env = 0"
    using deploy_prepare_Inr_iff prepare_okD by blast
  show ?thesis
  proof (rule ccontr)
    assume "\<not> ?thesis"
    with conds have "\<not> confirmed env" by simp
    with Inr assms show False
      by (simp add: deploy_split deploy_finish_declined deploy_prepare_InrD prepared_repo_wf)
  qed
qed

lemma deploy_push_requires_confirmation_witness: "confirmed sample_env"
  using deploy_push_requires_confirmation [OF repo_wf_fresh, of sample_env] sample_deploy
  by (simp add: fresh_repo_def)

text \<open>
  C27. The script exits with status 0 exactly when \<open>git\<close> is installed,
  \<open>index.html\<close> is present, \<open>git init\<close> (when it runs) and \<open>git add\<close>
  succeed, the reply confirms, and \<open>git remote add\<close>, \<open>git branch -M\<close> and
  \<open>git push\<close> succeed; every other run ends with a non-zero status.
\<close>

theorem deploy_exit_zero_iff:
  "fst (deploy env r) = 0 \<longleftrightarrow>
     git_installed env \<and> index_html env \<and> (git_dir r \<or> init_status env = 0) \<and>
     add_status env = 0 \<and> confirmed env \<and> remote_add_status env = 0 \<and>
     branch_status env = 0 \<and> push_status env = 0"
proof (cases "deploy_prepare env r")
  case (Inl ex)
  obtain c s where ex: "ex = (c, s)" by fastforce
  from deploy_prepare_Inl [of env r c s] Inl ex show ?thesis
    by (auto simp: deploy_split prepare_ok_def)
next
  case (Inr s)
  then have "prepare_ok env r" using deploy_prepare_Inr_iff by blast
  with Inr show ?thesis by (simp add: deploy_split deploy_finish_status prepare_ok_def)
qed

text \<open>
  C28. A successful run leaves the repository initialised, \<open>origin\<close>
  pointing at the GitHub repository, the branch renamed to \<open>main\<close> and
  \<open>origin/main\<close> at the last local commit; but it leaves changes
  uncommitted, and so unpublished, exactly when there were changes and
  \<open>git commit\<close> failed, a failure the \<open>|| echo\<close> hides behind the exit
  status 0.
\<close>

theorem deploy_publishes:
  assumes "fst (deploy env r) = 0"
  shows "sh_repo (snd (deploy env r)) =
           (prepared_repo env r)\<lparr>origin := Some repo_url, branch := ''main'',
                                  remote_main := Some (commits (prepared_repo env r))\<rparr> \<and>
         (work_changes (sh_repo (snd (deploy env r))) \<longleftrightarrow>
            \<not> commit_ok env \<and> (work_changes r \<or> \<not> git_dir r))"
  using deploy_success_repo [OF assms] by simp

lemma deploy_publishes_witness:
  "fst (deploy (sample_env\<lparr>commit_ok := False\<rparr>) (fresh_repo\<lparr>git_dir := True, commits := 3\<rparr>)) = 0 \<and>
   work_changes (sh_repo (snd (deploy (sample_env\<lparr>commit_ok := False\<rparr>)
                                (fresh_repo\<lparr>git_dir := True, commits := 3\<rparr>)))) \<and>
   remote_main (sh_repo (snd (deploy (sample_env\<lparr>commit_ok := False\<rparr>)
                                (fresh_repo\<lparr>git_dir := True, commits := 3\<rparr>)))) = Some 3"
proof -
  have ok: "fst (deploy (sample_env\<lparr>commit_ok := False\<rparr>) (fresh_repo\<lparr>git_dir := True, commits := 3\<rparr>)) = 0"
    by (simp add: deploy_split prepare_defs finish_defs sample_env_def fresh_repo_def Let_def
        reply_confirms_def)
  from deploy_publishes [OF ok] ok show ?thesis
    by (simp add: sample_env_def fresh_repo_def prepared_repo_def)
qed

text \<open>
  C30. Declining at the prompt does not undo the preparation: the script
  exits with status 1, but \<open>git init\<close> (without \<open>.git\<close>), \<open>git add\<close> and
  \<open>git commit\<close> have already run before the question was asked, and the
  repository holds their effect (a new commit when there were changes and
  the commit could be made).
\<close>

theorem deploy_declined_still_commits:
  assumes "git_installed env" and "index_html env" and "git_dir r \<or> init_status env = 0"
    and "add_status env = 0" and "\<not> confirmed env"
  shows "fst (deploy env r) = 1 \<and> sh_repo (snd (deploy env r)) = prepared_repo env r \<and>
         sh_git (snd (deploy env r)) = prepare_commands r"
proof -
  from assms have "prepare_ok env r" by (simp add: prepare_ok_def)
  then obtain s where s: "deploy_prepare env r = Inr s" using deploy_prepare_Inr_iff by blast
  with assms(5) show ?thesis by (simp add: deploy_split deploy_finish_declined deploy_prepare_InrD)
qed

lemma deploy_declined_still_commits_witness:
  "fst (deploy (sample_env\<lparr>stdin := ''n''\<rparr>) fresh_repo) = 1 \<and>
   commits (sh_repo (snd (deploy (sample_env\<lparr>stdin := ''n''\<rparr>) fresh_repo))) = 1 \<and>
   GitCommit \<in> set (sh_git (snd (deploy (sample_env\<lparr>stdin := ''n''\<rparr>) fresh_repo)))"
  using deploy_declined_still_commits [of "sample_env\<lparr>stdin := ''n''\<rparr>" fresh_repo]
  by (simp add: sample_env_def confirmed_def prepared_repo_def fresh_repo_def prepare_commands_def)

text \<open>
  C31. At the end of input (a non-interactive run) \<open>read\<close> fails and
  \<open>set -e\<close> ends the script with status 1 before the reply is tested: the
  cancellation message is never printed.
\<close>

theorem deploy_eof_exits_silently:
  assumes "git_installed env" and "index_html env" and "git_dir r \<or> init_status env = 0"
    and "add_status env = 0" and "stdin env = []"
  shows "fst (deploy env r) = 1 \<and> cancel_msg \<notin> set (sh_out (snd (deploy env r)))"
proof -
  from assms have "prepare_ok env r" by (simp add: prepare_ok_def)
  then obtain s where s: "deploy_prepare env r = Inr s" using deploy_prepare_Inr_iff by blast
  from deploy_prepare_out [OF s] have "cancel_msg \<notin> set (sh_out s)" .
  with s assms(5) show ?thesis by (simp add: deploy_split deploy_finish_eof cancel_msg_def)
qed

lemma deploy_eof_exits_silently_witness:
  "fst (deploy (sample_env\<lparr>stdin := []\<rparr>) fresh_repo) = 1"
  using deploy_eof_exits_silently [of "sample_env\<lparr>stdin := []\<rparr>" fresh_repo]
  by (simp add: sample_env_def)

text \<open>
  C32. Running the script again after a successful deployment, with the
  same answers, succeeds and leaves the repository as it was (no new commit,
  the same remote).
\<close>

theorem deploy_rerun_idempotent:
  assumes "fst (deploy env r) = 0"
  shows "fst (deploy env (sh_repo (snd (deploy env r)))) = 0 \<and>
         sh_repo (snd (deploy env (sh_repo (snd (deploy env r))))) = sh_repo (snd (deploy env r))"
proof -
  let ?r' = "sh_repo (snd (deploy env r))"
  obtain s where "deploy_prepare env r = Inr s" and "prepare_ok env r" and "confirmed env"
    and "remote_add_status env = 0" and "branch_status env = 0" and "push_status env = 0"
    using deploy_success_prepared [OF assms] by blast
  note ok = this
  have r': "?r' = (prepared_repo env r)\<lparr>origin := Some repo_url, branch := ''main'',
                      remote_main := Some (commits (prepared_repo env r))\<rparr>"
    using deploy_success_repo [OF assms] .
  then have fx: "prepared_repo env ?r' = ?r'" by (simp add: prepared_repo_id)
  from ok r' have "prepare_ok env ?r'" by (simp add: prepare_ok_def)
  then obtain s' where s': "deploy_prepare env ?r' = Inr s'" using deploy_prepare_Inr_iff by blast
  from s' ok fx r' show ?thesis
    by (simp add: deploy_split deploy_finish_status deploy_finish_confirmed deploy_prepare_InrD)
qed

lemma deploy_rerun_idempotent_witness:
  "fst (deploy sample_env (sh_repo (snd (deploy sample_env fresh_repo)))) = 0"
  using deploy_rerun_idempotent [of sample_env fresh_repo] sample_deploy by simp

text \<open>
  C26. The git commands of every run, whatever fails and whatever is typed,
  are a prefix of the script's order: \<open>git init\<close> (only without \<open>.git\<close>),
  \<open>git add\<close>, \<open>git commit\<close>, then \<open>git remote remove\<close>, \<open>git remote
  add\<close>, \<open>git branch -M main\<close> and \<open>git push\<close>; and no remote command runs
  unless the reply confirmed.
\<close>

theorem deploy_git_order:
  "prefix (sh_git (snd (deploy env r))) (prepare_commands r @ remote_commands) \<and>
   (GitRemoteRemove ''origin'' \<in> set (sh_git (snd (deploy env r))) \<longrightarrow> confirmed env)"
proof (cases "deploy_prepare env r")
  case (Inl ex)
  obtain c s where ex: "ex = (c, s)" by fastforce
  with Inl have p: "prefix (sh_git s) (prepare_commands r)" by (simp add: deploy_prepare_git)
  then have "GitRemoteRemove ''origin'' \<notin> set (sh_git s)"
    using remote_not_prepare set_mono_prefix by blast
  with p Inl ex show ?thesis by (auto simp: deploy_split intro: prefix_append)
next
  case (Inr s)
  then have g: "sh_git s = prepare_commands r" by (simp add: deploy_prepare_InrD)
  show ?thesis
  proof (cases "confirmed env")
    case True
    with Inr g show ?thesis by (simp add: deploy_split deploy_finish_git take_is_prefix)
  next
    case False
    with Inr g remote_not_prepare show ?thesis by (simp add: deploy_split deploy_finish_git)
  qed
qed

lemma deploy_git_order_witness:
  "confirmed sample_env \<and>
   prefix (sh_git (snd (deploy sample_env fresh_repo))) (prepare_commands fresh_repo @ remote_commands)"
proof -
  have "GitRemoteRemove ''origin'' \<in> set (sh_git (snd (deploy sample_env fresh_repo)))"
    by (simp add: deploy_split prepare_defs finish_defs sample_env_def fresh_repo_def Let_def
        reply_confirms_def)
  with deploy_git_order [of sample_env fresh_repo] show ?thesis by simp
qed

text \<open>
  C29. The script does what its deployment notes promise when git can
  commit: a successful run initialises the repository, adds and commits all
  files (\<open>git add\<close> directly followed by \<open>git commit\<close>, leaving nothing
  uncommitted), pushes to GitHub and gives the GitHub Pages instructions, in
  that order; when \<open>.git\<close> already exists the initialisation is skipped.
\<close>

theorem deploy_follows_documentation:
  assumes "fst (deploy env r) = 0" and "commit_ok env"
  shows "doc_view (snd (deploy env r)) =
           (if git_dir r then drop 1 documented_steps else documented_steps)"
proof -
  obtain s where s: "deploy_prepare env r = Inr s" and "confirmed env"
    and "remote_add_status env = 0" and "branch_status env = 0" and "push_status env = 0"
    using deploy_success_prepared [OF assms(1)] by blast
  note ok = this
  from deploy_success_repo [OF assms(1)] assms(2)
  have "\<not> work_changes (sh_repo (snd (deploy env r)))" by simp
  with ok show ?thesis
    by (simp add: deploy_split doc_view_def deploy_finish_git deploy_finish_pages deploy_prepare_InrD
        prepare_commands_def remote_commands_def documented_steps_def)
qed

lemma deploy_follows_documentation_witness:
  "doc_view (snd (deploy sample_env fresh_repo)) = documented_steps"
  using deploy_follows_documentation [of sample_env fresh_repo] sample_deploy
  by (simp add: fresh_repo_def sample_env_def)

end
