(* ===== verification/Spec2Isabelle.thy ===== *)
theory Spec2Isabelle
  imports Traces App Deploy
begin

text \<open>
  \<^bold>\<open>Verification development of topic-evolution.\<close>

  The repository is a static web page. src/app.js fetches \<open>data.json\<close> (a
  document with an array \<open>years\<close>, an object \<open>categories\<close> mapping each
  research category to its per-year counts, and optional \<open>markers\<close>),
  validates it, and draws it with Plotly as one line per category, with a
  few annotations and a fixed layout; a debounced \<open>resize\<close> handler keeps
  the chart sized. src/deploy.sh commits the site and pushes it to GitHub.
  The parts, the theory that models each, and how they correspond:

  \<^item> Prelude: the JavaScript built-ins the code calls (\<open>toString\<close> on
    integers as \<open>int_to_dec\<close>, \<open>indexOf\<close> as \<open>index_of\<close>, \<open>arr[i]\<close> as
    \<open>nth_opt\<close>, \<open>reduce\<close> with \<open>+\<close> as \<open>reduce_sum\<close>) and the collections
    \<open>js_simps\<close> and \<open>eval_simps\<close> the components share.
  \<^item> Json: the parsed document as the datatype \<open>json\<close>, with JavaScript
    truthiness, own-property access \<open>get_prop\<close>, \<open>Array.isArray\<close> and
    \<open>Object.entries\<close> (array-index keys first, ascending, then the others in
    insertion order).
  \<^item> Loader: \<open>AppState\<close> and the chart region as the record \<open>page\<close>
    (lines 17--27), \<open>logError\<close>, \<open>showLoadingState\<close>, \<open>showErrorState\<close>
    (lines 44--95) and \<open>loadTopicData\<close> (lines 103--147) as
    \<open>fetch_topic_data\<close> (the fetch and the validation, every \<open>throw\<close> a value
    of \<open>load_error\<close>), \<open>validate_data\<close>, \<open>check_categories\<close> and
    \<open>load_topic_data\<close> = \<open>showLoadingState\<close> then \<open>load_settled\<close>. Lemmas
    C1--C6: validation accepts exactly the well-formed documents and names the
    first inconsistent category; a failed load keeps \<open>AppState.data\<close> and
    shows the error, a successful one stores the document.
  \<^item> Dataset: the numeric reading \<open>to_dataset\<close> of a document, and that a
    validated one has a count per year in every series.
  \<^item> Traces: \<open>createChartTraces\<close> (lines 156--203), with
    \<open>Array.prototype.sort\<close> as the stable merge sort \<open>js_sort\<close> and the
    marker choice of line 169 as \<open>marker_symbol_for\<close>. Lemmas C7--C10: the
    sort is \<open>sort_key\<close> on the descending total (so it is stable and a
    permutation), ties keep the document's order, the builder refines the
    \<open>buildSeries\<close> contract \<open>build_series_spec\<close> of spec 4.2 (C9), and
    colours cycle through the 20-colour palette by position (C10).
  \<^item> Annotations: \<open>createDynamicAnnotations\<close> (lines 210--299) over the
    list \<open>annotation_triggers\<close> of its three hand-written tests. Lemmas
    C11--C14: which annotations appear, where, in which order, and that the
    README's category names trigger only one of them.
  \<^item> Layout: \<open>createChartLayout\<close> (lines 306--374), the whole layout
    object with one record per nested object. It has no property of its
    own: it is part of every drawn chart, and so of C24.
  \<^item> Debounce: \<open>debounce\<close> (lines 416--426) over time-stamped events, with
    the refinement C15 of a trailing-edge specification, C17 and C18.
  \<^item> App: \<open>renderChart\<close>, \<open>initializeApp\<close> and the four listeners
    (lines 380--476) as the event handler \<open>app_step\<close> on the record
    \<open>app_state\<close>; the two awaits of the start-up sequence split it into
    phases, and their outcomes arrive as events interleaved with resize,
    timer and error events. \<open>reachable\<close> is the inductive set of states some
    event sequence produces; the invariant \<open>app_inv\<close> holds on all of them
    (rule induction). A drawn chart is what \<open>Plotly.newPlot\<close> receives: the
    traces, the layout and \<open>CHART_CONFIG.layout\<close> (\<open>chart_config\<close>).
    Lemmas C19--C23 and C33 (safety and error paths), C16 (a burst of
    resizes calls \<open>Plotly.Plots.resize\<close> once: the debounce composed with
    the listener), and C34: the start-up
    sequence terminates, by the variant \<open>phase_rank\<close>, which no event
    raises and each awaited outcome lowers.
  \<^item> Deploy: src/deploy.sh as a \<open>set -e\<close> shell run over the record
    \<open>repo\<close>, split at its prompt into \<open>deploy_prepare\<close> and
    \<open>deploy_finish\<close>. The record \<open>deploy_env\<close> holds what the script
    cannot decide: the exit statuses of \<open>git init\<close>, \<open>git add\<close>, \<open>git
    remote add\<close>, \<open>git branch -M\<close> and \<open>git push\<close> (each ends the run
    under \<open>set -e\<close>), whether \<open>git commit\<close> can record the staged changes
    (its failure is swallowed by \<open>|| echo\<close>), and standard input. The
    shell records the git commands it runs, in order; \<open>doc_view\<close> reads a
    run as the steps the deployment notes (src/unnamed/part_002 lines
    14--18) list. Lemmas C25--C32: nothing is pushed without confirmation,
    the commands keep the script's order, the exit status, the published
    state, which leaves changes unpublished behind a status 0 exactly when
    the commit failed (C28), the documented steps when git can commit (C29),
    and the declined, end-of-input and rerun cases.
  \<^item> This theory: the page end to end, from the fetch to the drawn chart:
    the outcome of the start-up sequence for every fetch and render outcome
    (C24), and the spec's tie and malformed-length scenarios.

  Bounds and time. No definition uses fuel: every loop of the code runs over
  a finite list (the categories, the triggers, the events) and is structural
  recursion, or \<open>js_sort\<close>, whose termination is proved with the length
  measure. Times are natural numbers of milliseconds; the resize wait is the
  code's 250. Counts and years are unbounded integers: the dataset's values
  are small and JavaScript numbers are exact on them, so no wrap-around
  arises.

  Not modelled: Plotly itself (a drawn chart is the pair of traces and layout
  handed to \<open>Plotly.newPlot\<close>, and its failure is an input event), the DOM
  beyond the presence of the chart's mount element, HTML escaping of the
  messages written into \<open>innerHTML\<close>, properties inherited through the
  prototype chain (the document is plain JSON), the JavaScript numbers that
  are not integers (a document holding them passes validation but has no
  numeric reading here, and its chart is \<open>RChart None\<close>), the synchronous
  exception \<open>createChartLayout\<close> raises on a \<open>null\<close> year (line 325; the
  page then shows the render error, as on a rejected \<open>Plotly.newPlot\<close>),
  and git's own behaviour beyond the exit statuses and the commit outcome
  the deployment script reacts to. Of the documentation (src/unnamed, three
  README and deployment notes) only the README's list of category names is
  used, to compare with the names the annotations look up (C14), and the
  deployment notes' list of what the script does, as the contract of
  deploy.sh (C29); the rest is prose about the data set and the
  classification done outside this repository, with no operation to model.
\<close>

section \<open>Scenarios\<close>

text \<open>
  The document of the spec's tie scenario: two categories with the same
  total after a smaller one.
\<close>

definition tie_doc :: json where
  "tie_doc = JObj [(''years'', JArr [JNum 2020]),
     (''categories'', JObj [(''A'', JArr [JNum 10]), (''B'', JArr [JNum 30]), (''C'', JArr [JNum 30])])]"

section \<open>Lemmas\<close>

text \<open>
  The tie scenario: with totals A = 10, B = 30, C = 30 the document is
  accepted and the chart lists B, C, A; the tie between B and C keeps the
  document's order.
\<close>

lemma tie_scenario:
  "validate_data tie_doc = Inr tie_doc \<and>
   map_option (map tr_name \<circ> fst) (chart_of tie_doc) = Some [''B'', ''C'', ''A'']"
proof
  show "validate_data tie_doc = Inr tie_doc"
    by (simp add: validate_data_cases tie_doc_def eval_simps)
  show "map_option (map tr_name \<circ> fst) (chart_of tie_doc) = Some [''B'', ''C'', ''A'']"
    by (simp add: chart_of_def to_dataset_def tie_doc_def eval_simps create_chart_traces_def
        category_entries_def js_sort.simps compare_totals_def make_trace_def)
qed

text \<open>
  C24. How the start-up sequence ends, for every outcome of the fetch and of
  \<open>Plotly.newPlot\<close>, on a page with its chart element: when the fetch or
  the validation fails, the page shows \<open>Application failed to
  initialize\<close>, holds no data and has logged the loader's specific error;
  when the document is accepted, the page holds it and shows the chart built
  from it if \<open>Plotly.newPlot\<close> resolves, and the render error otherwise.
  Either way the sequence has settled, and a chart instance exists exactly
  after a successful render.
\<close>

theorem startup_outcome:
  "phase (app_run (initial_app True) [DomContentLoaded, FetchSettled r, PlotSettled b]) = Settled \<and>
   region (pg (app_run (initial_app True) [DomContentLoaded, FetchSettled r, PlotSettled b])) =
     (case fetch_topic_data r of
        Inl e \<Rightarrow> Some (RError ''Application failed to initialize'')
      | Inr d \<Rightarrow> (if b then Some (RChart (chart_of d))
                 else Some (RError ''Failed to render chart visualization''))) \<and>
   app_data (pg (app_run (initial_app True) [DomContentLoaded, FetchSettled r, PlotSettled b])) =
     (case fetch_topic_data r of Inl e \<Rightarrow> None | Inr d \<Rightarrow> Some d) \<and>
   chart_instance (pg (app_run (initial_app True) [DomContentLoaded, FetchSettled r, PlotSettled b])) =
     (b \<and> (\<exists>d. fetch_topic_data r = Inr d)) \<and>
   (case fetch_topic_data r of
      Inl e \<Rightarrow> LogError ''loadTopicData'' (error_message e) \<in>
               set (console (pg (app_run (initial_app True) [DomContentLoaded, FetchSettled r, PlotSettled b])))
    | Inr d \<Rightarrow> True)"
  by (cases "fetch_topic_data r")
     (auto simp: initial_app_def initial_page_def init_after_load_def load_settled_def
        render_chart_settled_def page_ops_simps Let_def)

lemma startup_outcome_witness:
  "region (pg (app_run (initial_app True)
     [DomContentLoaded, FetchSettled (Response 200 ''OK'' (BodyJson tie_doc)), PlotSettled True])) =
   Some (RChart (chart_of tie_doc))"
proof -
  have "fetch_topic_data (Response 200 ''OK'' (BodyJson tie_doc)) = Inr tie_doc"
    using tie_scenario by (simp add: fetch_topic_data_def response_ok_def)
  with startup_outcome [of "Response 200 ''OK'' (BodyJson tie_doc)" True] show ?thesis by simp
qed

text \<open>
  The malformed-length scenario: when a series is shorter than
  \<open>years\<close>, no data is stored, the loader logs the inconsistency naming the
  category, and the page ends showing \<open>Application failed to initialize\<close>.
\<close>

theorem inconsistent_document_scenario:
  "region (pg (app_run (initial_app True)
      [DomContentLoaded, FetchSettled (Response 200 ''OK'' (BodyJson sample_bad_doc))])) =
     Some (RError ''Application failed to initialize'') \<and>
   LogError ''loadTopicData'' ''Data inconsistency in category: Finance'' \<in>
     set (console (pg (app_run (initial_app True)
       [DomContentLoaded, FetchSettled (Response 200 ''OK'' (BodyJson sample_bad_doc))]))) \<and>
   app_data (pg (app_run (initial_app True)
      [DomContentLoaded, FetchSettled (Response 200 ''OK'' (BodyJson sample_bad_doc))])) = None"
  by (simp add: initial_app_def initial_page_def init_after_load_def load_settled_def
      fetch_topic_data_def validate_data_cases sample_bad_doc_def page_ops_simps eval_simps)

end
